theory Spec2Isabelle
  imports Main "HOL-Library.Word"
begin

unbundle bit_operations_syntax

section \<open>Python values used by the trading bot\<close>

text \<open>
  Python \<open>str\<close> is modelled by \<open>string\<close>: a character is a code point below 256.
  Python \<open>bytes\<close> is a list of 8-bit words. A Python \<open>float\<close> is an IEEE double:
  \<open>Finite s m e\<close> stands for \<open>(-1)^s * m * 2^e\<close>, \<open>Infinity s\<close> for the two
  infinities and \<open>NaN\<close> for not-a-number. The program only compares floats with the
  integer 0 and prints them.
\<close>

type_synonym byte = "8 word"
type_synonym u32 = "32 word"

datatype pyfloat = Finite bool nat int | Infinity bool | NaN

text \<open>\<open>x <= 0\<close> and \<open>x > 0\<close> for a float \<open>x\<close>: both are false on NaN.\<close>

fun float_le_zero :: "pyfloat \<Rightarrow> bool" where
  "float_le_zero (Finite s m e) = (m = 0 \<or> s)"
| "float_le_zero (Infinity s) = s"
| "float_le_zero NaN = False"

fun float_gt_zero :: "pyfloat \<Rightarrow> bool" where
  "float_gt_zero (Finite s m e) = (m \<noteq> 0 \<and> \<not> s)"
| "float_gt_zero (Infinity s) = (\<not> s)"
| "float_gt_zero NaN = False"

datatype pyval = PStr string | PInt int | PFloat pyfloat | PNone

datatype json =
    JNull | JBool bool | JNumber string | JString string
  | JArray "json list" | JObject "(string \<times> json) list"

text \<open>
  Two functions of the Python runtime are taken as they are: \<open>repr\<close> of a float (the
  shortest decimal text that reads back as the same double) and the JSON parser, which
  returns \<open>None\<close> where \<open>json.loads\<close> raises.
\<close>

record pylib =
  float_repr :: "pyfloat \<Rightarrow> string"
  json_loads :: "string \<Rightarrow> json option"

subsection \<open>\<open>str()\<close> of a value\<close>

definition digit_char :: "nat \<Rightarrow> char" where
  "digit_char d = char_of (48 + d)"

fun nat_str :: "nat \<Rightarrow> string" where
  "nat_str n = (if n < 10 then [digit_char n] else nat_str (n div 10) @ [digit_char (n mod 10)])"

definition int_str :: "int \<Rightarrow> string" where
  "int_str i = (if i < 0 then CHR ''-'' # nat_str (nat (- i)) else nat_str (nat i))"

fun py_str :: "pylib \<Rightarrow> pyval \<Rightarrow> string" where
  "py_str L (PStr s) = s"
| "py_str L (PInt i) = int_str i"
| "py_str L (PFloat f) = float_repr L f"
| "py_str L PNone = ''None''"

subsection \<open>\<open>str.encode()\<close>: UTF-8\<close>

definition utf8_char :: "char \<Rightarrow> byte list" where
  "utf8_char c =
     (let n = (of_char c :: nat) in
      if n < 128 then [of_nat n]
      else [of_nat (192 + n div 64), of_nat (128 + n mod 64)])"

definition encode_utf8 :: "string \<Rightarrow> byte list" where
  "encode_utf8 s = concat (map utf8_char s)"

subsection \<open>\<open>urllib.parse\<close>: quote, quote_plus, urlencode\<close>

definition ALWAYS_SAFE :: "char list" where
  "ALWAYS_SAFE =
     ''ABCDEFGHIJKLMNOPQRSTUVWXYZ'' @ ''abcdefghijklmnopqrstuvwxyz'' @ ''0123456789'' @ ''_.-~''"

definition hex_upper :: "nat \<Rightarrow> char" where
  "hex_upper d = (''0123456789ABCDEF'' ! (d mod 16))"

text \<open>The quoter of one byte: the character itself when safe, else \<open>%XX\<close>.\<close>

definition quoter :: "char list \<Rightarrow> byte \<Rightarrow> string" where
  "quoter safe b =
     (if char_of (unat b) \<in> set (ALWAYS_SAFE @ safe) \<and> unat b < 128 then [char_of (unat b)]
      else [CHR ''%'', hex_upper (unat b div 16), hex_upper (unat b mod 16)])"

definition quote_from_bytes :: "byte list \<Rightarrow> char list \<Rightarrow> string" where
  "quote_from_bytes bs safe = concat (map (quoter safe) bs)"

definition quote :: "string \<Rightarrow> char list \<Rightarrow> string" where
  "quote s safe = (if s = [] then s else quote_from_bytes (encode_utf8 s) safe)"

definition quote_plus :: "string \<Rightarrow> string" where
  "quote_plus s =
     (if CHR '' '' \<notin> set s then quote s []
      else map (\<lambda>c. if c = CHR '' '' then CHR ''+'' else c) (quote s '' ''))"

text \<open>\<open>'&'.join(l)\<close>\<close>

fun join_amp :: "string list \<Rightarrow> string" where
  "join_amp [] = []"
| "join_amp [x] = x"
| "join_amp (x # y # ys) = x @ ''&'' @ join_amp (y # ys)"

text \<open>
  A \<open>dict\<close> keeps its keys in insertion order: it is an association list with distinct
  keys. \<open>urlencode\<close> walks the items in that order.
\<close>

type_synonym pydict = "(string \<times> pyval) list"

definition urlencode :: "pylib \<Rightarrow> pydict \<Rightarrow> string" where
  "urlencode L query =
     join_amp (map (\<lambda>(k, v). quote_plus k @ ''='' @ quote_plus (py_str L v)) query)"

subsection \<open>\<open>hashlib.sha256\<close>\<close>

definition rotr :: "nat \<Rightarrow> u32 \<Rightarrow> u32" where
  "rotr n x = drop_bit n x OR push_bit (32 - n) x"

definition Ch :: "u32 \<Rightarrow> u32 \<Rightarrow> u32 \<Rightarrow> u32" where
  "Ch x y z = (x AND y) XOR (NOT x AND z)"

definition Maj :: "u32 \<Rightarrow> u32 \<Rightarrow> u32 \<Rightarrow> u32" where
  "Maj x y z = (x AND y) XOR (x AND z) XOR (y AND z)"

definition Sigma0 :: "u32 \<Rightarrow> u32" where
  "Sigma0 x = rotr 2 x XOR rotr 13 x XOR rotr 22 x"

definition Sigma1 :: "u32 \<Rightarrow> u32" where
  "Sigma1 x = rotr 6 x XOR rotr 11 x XOR rotr 25 x"

definition sigma0 :: "u32 \<Rightarrow> u32" where
  "sigma0 x = rotr 7 x XOR rotr 18 x XOR drop_bit 3 x"

definition sigma1 :: "u32 \<Rightarrow> u32" where
  "sigma1 x = rotr 17 x XOR rotr 19 x XOR drop_bit 10 x"

definition K256 :: "u32 list" where
  "K256 =
    [0x428A2F98, 0x71374491, 0xB5C0FBCF, 0xE9B5DBA5, 0x3956C25B, 0x59F111F1, 0x923F82A4, 0xAB1C5ED5,
     0xD807AA98, 0x12835B01, 0x243185BE, 0x550C7DC3, 0x72BE5D74, 0x80DEB1FE, 0x9BDC06A7, 0xC19BF174,
     0xE49B69C1, 0xEFBE4786, 0x0FC19DC6, 0x240CA1CC, 0x2DE92C6F, 0x4A7484AA, 0x5CB0A9DC, 0x76F988DA,
     0x983E5152, 0xA831C66D, 0xB00327C8, 0xBF597FC7, 0xC6E00BF3, 0xD5A79147, 0x06CA6351, 0x14292967,
     0x27B70A85, 0x2E1B2138, 0x4D2C6DFC, 0x53380D13, 0x650A7354, 0x766A0ABB, 0x81C2C92E, 0x92722C85,
     0xA2BFE8A1, 0xA81A664B, 0xC24B8B70, 0xC76C51A3, 0xD192E819, 0xD6990624, 0xF40E3585, 0x106AA070,
     0x19A4C116, 0x1E376C08, 0x2748774C, 0x34B0BCB5, 0x391C0CB3, 0x4ED8AA4A, 0x5B9CCA4F, 0x682E6FF3,
     0x748F82EE, 0x78A5636F, 0x84C87814, 0x8CC70208, 0x90BEFFFA, 0xA4506CEB, 0xBEF9A3F7, 0xC67178F2]"

type_synonym sha_state = "u32 \<times> u32 \<times> u32 \<times> u32 \<times> u32 \<times> u32 \<times> u32 \<times> u32"

definition H256 :: sha_state where
  "H256 = (0x6A09E667, 0xBB67AE85, 0x3C6EF372, 0xA54FF53A,
           0x510E527F, 0x9B05688C, 0x1F83D9AB, 0x5BE0CD19)"

definition be32 :: "byte list \<Rightarrow> u32" where
  "be32 bs = foldl (\<lambda>acc b. push_bit 8 acc OR ucast b) 0 bs"

definition block_words :: "byte list \<Rightarrow> u32 list" where
  "block_words blk = map (\<lambda>j. be32 (take 4 (drop (4 * j) blk))) [0..<16]"

text \<open>The message schedule: 16 words of the block, extended to 64.\<close>

fun extend_schedule :: "nat \<Rightarrow> u32 list \<Rightarrow> u32 list" where
  "extend_schedule 0 w = w"
| "extend_schedule (Suc n) w =
     (let t = length w in
      extend_schedule n
        (w @ [sigma1 (w ! (t - 2)) + w ! (t - 7) + sigma0 (w ! (t - 15)) + w ! (t - 16)]))"

definition sha_round :: "sha_state \<Rightarrow> u32 \<times> u32 \<Rightarrow> sha_state" where
  "sha_round st kw =
     (case st of (a, b, c, d, e, f, g, h) \<Rightarrow>
        let t1 = h + Sigma1 e + Ch e f g + fst kw + snd kw;
            t2 = Sigma0 a + Maj a b c
        in (t1 + t2, a, b, c, d + t1, e, f, g))"

definition sha_add :: "sha_state \<Rightarrow> sha_state \<Rightarrow> sha_state" where
  "sha_add s t =
     (case s of (a, b, c, d, e, f, g, h) \<Rightarrow>
      case t of (a', b', c', d', e', f', g', h') \<Rightarrow>
        (a + a', b + b', c + c', d + d', e + e', f + f', g + g', h + h'))"

definition sha_compress :: "sha_state \<Rightarrow> byte list \<Rightarrow> sha_state" where
  "sha_compress st blk =
     sha_add st (foldl sha_round st (zip K256 (extend_schedule 48 (block_words blk))))"

definition be_bytes32 :: "u32 \<Rightarrow> byte list" where
  "be_bytes32 w = map (\<lambda>i. ucast (drop_bit (8 * (3 - i)) w)) [0..<4]"

definition be_bytes64 :: "64 word \<Rightarrow> byte list" where
  "be_bytes64 w = map (\<lambda>i. ucast (drop_bit (8 * (7 - i)) w)) [0..<8]"

definition sha_pad :: "byte list \<Rightarrow> byte list" where
  "sha_pad m =
     m @ [0x80] @ replicate ((119 - length m mod 64) mod 64) 0 @ be_bytes64 (of_nat (8 * length m))"

definition sha_blocks :: "byte list \<Rightarrow> byte list list" where
  "sha_blocks p = map (\<lambda>i. take 64 (drop (64 * i) p)) [0..<length p div 64]"

definition state_bytes :: "sha_state \<Rightarrow> byte list" where
  "state_bytes st =
     (case st of (a, b, c, d, e, f, g, h) \<Rightarrow>
        concat (map (\<lambda>w. be_bytes32 w) [a, b, c, d, e, f, g, h]))"

definition sha256 :: "byte list \<Rightarrow> byte list" where
  "sha256 m = state_bytes (foldl sha_compress H256 (sha_blocks (sha_pad m)))"

subsection \<open>\<open>hmac.new(key, msg, hashlib.sha256)\<close> and \<open>hexdigest()\<close>\<close>

definition hmac_sha256 :: "byte list \<Rightarrow> byte list \<Rightarrow> byte list" where
  "hmac_sha256 key msg =
     (let blocksize = 64;
          key1 = (if length key > blocksize then sha256 key else key);
          key2 = key1 @ replicate (blocksize - length key1) 0;
          inner = sha256 (map (\<lambda>b. b XOR 0x36) key2 @ msg)
      in sha256 (map (\<lambda>b. b XOR 0x5C) key2 @ inner))"

definition hex_lower :: "nat \<Rightarrow> char" where
  "hex_lower d = (''0123456789abcdef'' ! (d mod 16))"

definition hexdigest :: "byte list \<Rightarrow> string" where
  "hexdigest bs = concat (map (\<lambda>b. [hex_lower (unat b div 16), hex_lower (unat b mod 16)]) bs)"

subsection \<open>\<open>requests\<close>: how the parameters are put on the wire\<close>

text \<open>
  \<open>requests.post(url, params=...)\<close> is a call into the \<open>requests\<close> package, which is
  not part of the repository. What it does with the parameters is modelled from the
  package: \<open>_encode_params\<close> drops every parameter whose value is \<open>None\<close>, encodes
  string keys and values as UTF-8 and calls \<open>urlencode(..., doseq=True)\<close>; the URL with
  the query is then passed through \<open>requote_uri\<close>, which unquotes escapes of unreserved
  characters (\<open>unquote_unreserved\<close>) and quotes whatever is illegal in a URL. The part of
  the URL in front of the query is parsed and put together again before that
  (\<open>parse_url\<close>: an empty path becomes \<open>/\<close>, dot segments are removed); this step is
  not modelled, and what is stated about the URL sent holds for whatever scheme, host and
  path come out of it.
\<close>

text \<open>\<open>quote_plus\<close> of a \<open>bytes\<close> argument.\<close>

definition quote_plus_bytes :: "byte list \<Rightarrow> string" where
  "quote_plus_bytes bs =
     (if 0x20 \<notin> set bs then quote_from_bytes bs []
      else map (\<lambda>c. if c = CHR '' '' then CHR ''+'' else c) (quote_from_bytes bs '' ''))"

fun wire_value :: "pylib \<Rightarrow> pyval \<Rightarrow> string" where
  "wire_value L (PStr s) = quote_plus_bytes (encode_utf8 s)"
| "wire_value L v = quote_plus (py_str L v)"

definition encode_params :: "pylib \<Rightarrow> pydict \<Rightarrow> string" where
  "encode_params L data =
     join_amp (map (\<lambda>(k, v). quote_plus_bytes (encode_utf8 k) @ ''='' @ wire_value L v)
                 (filter (\<lambda>(k, v). v \<noteq> PNone) data))"

definition isalnum :: "char \<Rightarrow> bool" where
  "isalnum c =
     (let n = (of_char c :: nat)
      in (48 \<le> n \<and> n \<le> 57) \<or> (65 \<le> n \<and> n \<le> 90) \<or> (97 \<le> n \<and> n \<le> 122)
         \<or> n = 170 \<or> (178 \<le> n \<and> n \<le> 179) \<or> n = 181 \<or> (185 \<le> n \<and> n \<le> 186)
         \<or> (188 \<le> n \<and> n \<le> 190) \<or> (192 \<le> n \<and> n \<le> 214)
         \<or> (216 \<le> n \<and> n \<le> 246) \<or> 248 \<le> n)"

definition hex_digit :: "char \<Rightarrow> nat option" where
  "hex_digit c =
     (let n = (of_char c :: nat)
      in if 48 \<le> n \<and> n \<le> 57 then Some (n - 48)
         else if 65 \<le> n \<and> n \<le> 70 then Some (n - 55)
         else if 97 \<le> n \<and> n \<le> 102 then Some (n - 87)
         else None)"

definition UNRESERVED_SET :: "char list" where
  "UNRESERVED_SET =
     ''ABCDEFGHIJKLMNOPQRSTUVWXYZ'' @ ''abcdefghijklmnopqrstuvwxyz'' @ ''0123456789-._~''"

fun unquote_unreserved :: "string \<Rightarrow> string option" where
  "unquote_unreserved [] = Some []"
| "unquote_unreserved (c # cs) =
     (if c = CHR ''%'' \<and> length (take 2 cs) = 2 \<and> list_all isalnum (take 2 cs) then
        (case (hex_digit (cs ! 0), hex_digit (cs ! 1)) of
           (Some x, Some y) \<Rightarrow>
             if char_of (16 * x + y) \<in> set UNRESERVED_SET
             then map_option (\<lambda>r. char_of (16 * x + y) # r) (unquote_unreserved (drop 2 cs))
             else map_option (\<lambda>r. c # r) (unquote_unreserved cs)
         | _ \<Rightarrow> None)
      else map_option (\<lambda>r. c # r) (unquote_unreserved cs))"

definition safe_with_percent :: "char list" where
  "safe_with_percent = ''!#$%&'' @ [CHR 0x27] @ ''()*+,/:;=?@[]~''"

definition safe_without_percent :: "char list" where
  "safe_without_percent = ''!#$&'' @ [CHR 0x27] @ ''()*+,/:;=?@[]~''"

definition requote_uri :: "string \<Rightarrow> string" where
  "requote_uri uri =
     (case unquote_unreserved uri of
        Some u \<Rightarrow> quote u safe_with_percent
      | None \<Rightarrow> quote uri safe_without_percent)"

section \<open>The world outside the program\<close>

record response =
  status_code :: nat
  resp_text :: string

text \<open>
  The exceptions the program meets, all of them subclasses of \<open>Exception\<close>:
  \<open>HTTPError\<close> carries the response it was raised for.
\<close>

datatype exn =
    ValueError string
  | HTTPError response
  | Timeout
  | ConnectionError
  | JSONDecodeError
  | OtherException string

record http_request =
  url :: string
  headers :: "(string \<times> string) list"
  params :: pydict
  timeout :: nat

text \<open>What one call of \<open>requests.post\<close> does: it raises, or it returns a response.\<close>

datatype http_outcome = Raises exn | Returns response

datatype log_record =
    InfoPost string pydict
  | InfoResponse nat string
  | ErrorApi exn

text \<open>
  The state the program acts on. \<open>clock\<close> gives the successive values of
  \<open>int(time.time() * 1000)\<close>, \<open>ticks\<close> counts the readings taken. \<open>remote\<close> is the
  network and the exchange: the outcome of the k-th post. \<open>wire\<close> lists the posts made,
  oldest first, and \<open>logs\<close> the records emitted. Dictionaries are objects: \<open>heap\<close> maps
  a reference to the dictionary it holds and \<open>next_ref\<close> is the next unused reference.
\<close>

record world =
  clock :: "nat \<Rightarrow> int"
  ticks :: nat
  remote :: "nat \<Rightarrow> http_request \<Rightarrow> http_outcome"
  wire :: "http_request list"
  logs :: "log_record list"
  heap :: "nat \<Rightarrow> pydict"
  next_ref :: nat

definition time_ms :: "world \<Rightarrow> int \<times> world" where
  "time_ms w = (clock w (ticks w), w\<lparr>ticks := Suc (ticks w)\<rparr>)"

definition requests_post :: "http_request \<Rightarrow> world \<Rightarrow> http_outcome \<times> world" where
  "requests_post req w = (remote w (length (wire w)) req, w\<lparr>wire := wire w @ [req]\<rparr>)"

definition log_emit :: "log_record \<Rightarrow> world \<Rightarrow> world" where
  "log_emit r w = w\<lparr>logs := logs w @ [r]\<rparr>"

text \<open>\<open>d[k] = v\<close>: a key already present keeps its place, a new key goes last.\<close>

fun dict_set :: "string \<Rightarrow> pyval \<Rightarrow> pydict \<Rightarrow> pydict" where
  "dict_set k v [] = [(k, v)]"
| "dict_set k v ((k', v') # d) =
     (if k' = k then (k, v) # d else (k', v') # dict_set k v d)"

definition setitem :: "nat \<Rightarrow> string \<Rightarrow> pyval \<Rightarrow> world \<Rightarrow> world" where
  "setitem r k v w = w\<lparr>heap := (heap w)(r := dict_set k v (heap w r))\<rparr>"

text \<open>A dictionary display \<open>{...}\<close> creates a new object.\<close>

definition new_dict :: "pydict \<Rightarrow> world \<Rightarrow> nat \<times> world" where
  "new_dict d w =
     (next_ref w, w\<lparr>heap := (heap w)(next_ref w := d), next_ref := Suc (next_ref w)\<rparr>)"

definition raise_for_status :: "response \<Rightarrow> exn + unit" where
  "raise_for_status r =
     (if 400 \<le> status_code r \<and> status_code r < 600 then Inl (HTTPError r) else Inr ())"

definition response_json :: "pylib \<Rightarrow> response \<Rightarrow> exn + json" where
  "response_json L r =
     (case json_loads L (resp_text r) of None \<Rightarrow> Inl JSONDecodeError | Some j \<Rightarrow> Inr j)"

section \<open>bot/client.py: BinanceFuturesClient\<close>

record client =
  api_key :: string
  api_secret :: string
  request_timeout :: nat

definition BASE_URL :: string where
  "BASE_URL = ''https://testnet.binancefuture.com''"

definition init_client :: "string \<Rightarrow> string \<Rightarrow> nat option \<Rightarrow> client" where
  "init_client k s t =
     \<lparr>api_key = k, api_secret = s, request_timeout = (case t of None \<Rightarrow> 10 | Some n \<Rightarrow> n)\<rparr>"

definition sign_request :: "pylib \<Rightarrow> client \<Rightarrow> pydict \<Rightarrow> string" where
  "sign_request L self ps =
     (let query_string = urlencode L ps
      in hexdigest (hmac_sha256 (encode_utf8 (api_secret self)) (encode_utf8 query_string)))"

definition get_request_headers :: "client \<Rightarrow> (string \<times> string) list" where
  "get_request_headers self = [(''X-MBX-APIKEY'', api_key self)]"

text \<open>
  \<open>_post_request\<close>. \<open>request_params\<close> is the reference of the caller's dictionary: the
  two assignments write into that object. Everything from the post on runs under
  \<open>try\<close>; the handler logs the exception and raises it again.
\<close>

definition post_request ::
  "pylib \<Rightarrow> client \<Rightarrow> string \<Rightarrow> nat \<Rightarrow> world \<Rightarrow> (exn + json) \<times> world" where
  "post_request L self endpoint_path request_params w =
     (let full_url = BASE_URL @ endpoint_path;
          (t, w1) = time_ms w;
          w2 = setitem request_params ''timestamp'' (PInt t) w1;
          w3 = setitem request_params ''signature''
                 (PStr (sign_request L self (heap w2 request_params))) w2;
          w4 = log_emit (InfoPost endpoint_path (heap w3 request_params)) w3;
          (out, w5) = requests_post
                        \<lparr>url = full_url, headers = get_request_headers self,
                         params = heap w4 request_params, timeout = request_timeout self\<rparr> w4
      in case out of
           Raises e \<Rightarrow> (Inl e, log_emit (ErrorApi e) w5)
         | Returns resp \<Rightarrow>
             (let w6 = log_emit (InfoResponse (status_code resp) (resp_text resp)) w5
              in case raise_for_status resp of
                   Inl e \<Rightarrow> (Inl e, log_emit (ErrorApi e) w6)
                 | Inr u \<Rightarrow>
                     (case response_json L resp of
                        Inl e \<Rightarrow> (Inl e, log_emit (ErrorApi e) w6)
                      | Inr j \<Rightarrow> (Inr j, w6))))"

definition set_leverage ::
  "pylib \<Rightarrow> client \<Rightarrow> string \<Rightarrow> int \<Rightarrow> world \<Rightarrow> (exn + json) \<times> world" where
  "set_leverage L self symbol leverage w =
     (let (r, w1) = new_dict [(''symbol'', PStr symbol), (''leverage'', PInt leverage)] w
      in post_request L self ''/fapi/v1/leverage'' r w1)"

text \<open>\<open>try: ... except Exception: pass\<close>\<close>

definition ensure_symbol_ready ::
  "pylib \<Rightarrow> client \<Rightarrow> string \<Rightarrow> world \<Rightarrow> (exn + unit) \<times> world" where
  "ensure_symbol_ready L self symbol w =
     (case set_leverage L self symbol 10 w of
        (Inl e, w1) \<Rightarrow> (Inr (), w1)
      | (Inr j, w1) \<Rightarrow> (Inr (), w1))"

fun opt_float :: "pyfloat option \<Rightarrow> pyval" where
  "opt_float None = PNone"
| "opt_float (Some f) = PFloat f"

definition place_market_order ::
  "pylib \<Rightarrow> client \<Rightarrow> string \<Rightarrow> string \<Rightarrow> pyfloat \<Rightarrow> world \<Rightarrow> (exn + json) \<times> world" where
  "place_market_order L self symbol side quantity w =
     (case ensure_symbol_ready L self symbol w of
        (Inl e, w1) \<Rightarrow> (Inl e, w1)
      | (Inr u, w1) \<Rightarrow>
          (let (r, w2) = new_dict
                 [(''symbol'', PStr symbol), (''side'', PStr side),
                  (''type'', PStr ''MARKET''), (''quantity'', PFloat quantity)] w1
           in post_request L self ''/fapi/v1/order'' r w2))"

definition place_limit_order ::
  "pylib \<Rightarrow> client \<Rightarrow> string \<Rightarrow> string \<Rightarrow> pyfloat \<Rightarrow> pyfloat option \<Rightarrow> world
     \<Rightarrow> (exn + json) \<times> world" where
  "place_limit_order L self symbol side quantity price w =
     (case ensure_symbol_ready L self symbol w of
        (Inl e, w1) \<Rightarrow> (Inl e, w1)
      | (Inr u, w1) \<Rightarrow>
          (let (r, w2) = new_dict
                 [(''symbol'', PStr symbol), (''side'', PStr side),
                  (''type'', PStr ''LIMIT''), (''timeInForce'', PStr ''GTC''),
                  (''quantity'', PFloat quantity), (''price'', opt_float price)] w1
           in post_request L self ''/fapi/v1/order'' r w2))"

section \<open>bot/validators.py and bot/orders.py\<close>

text \<open>
  The \<open>argparse.Namespace\<close> of an order: \<open>quantity\<close> is a float, \<open>price\<close> a float or
  \<open>None\<close>, the rest are strings.
\<close>

record order_arguments =
  symbol :: string
  side :: string
  type :: string
  quantity :: pyfloat
  price :: "pyfloat option"

definition validate_common :: "pylib \<Rightarrow> order_arguments \<Rightarrow> exn + unit" where
  "validate_common L a =
     (if side a \<notin> set [''BUY'', ''SELL''] then
        Inl (ValueError (''Invalid order side '' @ [CHR 0x27] @ side a @ [CHR 0x27]
               @ ''. Must be '' @ [CHR 0x27] @ ''BUY'' @ [CHR 0x27] @ '' or ''
               @ [CHR 0x27] @ ''SELL'' @ [CHR 0x27]))
      else if float_le_zero (quantity a) then
        Inl (ValueError (''Invalid quantity '' @ float_repr L (quantity a)
               @ ''. Quantity must be greater than 0''))
      else if type a = ''LIMIT'' \<and> price a = None then
        Inl (ValueError ''Price is required for LIMIT orders. Provide --price argument'')
      else Inr ())"

record order_service =
  binance_client :: client

definition create ::
  "pylib \<Rightarrow> order_service \<Rightarrow> order_arguments \<Rightarrow> world \<Rightarrow> (exn + json) \<times> world" where
  "create L self a w =
     (if type a = ''MARKET'' then
        place_market_order L (binance_client self) (symbol a) (side a) (quantity a) w
      else if type a = ''LIMIT'' then
        place_limit_order L (binance_client self) (symbol a) (side a) (quantity a) (price a) w
      else (Inl (ValueError (''Unsupported order type: '' @ type a)), w))"

section \<open>Notions used in the statements\<close>

text \<open>
  The dictionary after the two assignments of \<open>_post_request\<close> at time \<open>t\<close>, the request
  that is then posted, and the result that corresponds to an outcome of the post.
\<close>

definition stamped :: "pydict \<Rightarrow> int \<Rightarrow> pydict" where
  "stamped d t = dict_set ''timestamp'' (PInt t) d"

definition signed :: "pylib \<Rightarrow> client \<Rightarrow> pydict \<Rightarrow> int \<Rightarrow> pydict" where
  "signed L self d t =
     dict_set ''signature'' (PStr (sign_request L self (stamped d t))) (stamped d t)"

definition sent_request ::
  "pylib \<Rightarrow> client \<Rightarrow> string \<Rightarrow> pydict \<Rightarrow> int \<Rightarrow> http_request" where
  "sent_request L self path d t =
     \<lparr>url = BASE_URL @ path, headers = [(''X-MBX-APIKEY'', api_key self)],
      params = signed L self d t, timeout = request_timeout self\<rparr>"

definition outcome_result :: "pylib \<Rightarrow> http_outcome \<Rightarrow> exn + json" where
  "outcome_result L out =
     (case out of
        Raises e \<Rightarrow> Inl e
      | Returns resp \<Rightarrow>
          (if 400 \<le> status_code resp \<and> status_code resp < 600 then Inl (HTTPError resp)
           else case json_loads L (resp_text resp) of
                  None \<Rightarrow> Inl JSONDecodeError
                | Some j \<Rightarrow> Inr j))"

text \<open>
  The signer in the words of the specification: the parameters as \<open>key=value\<close> pairs
  joined with \<open>&\<close>, names and values percent-encoded by the rules of a URL query (an
  unreserved character stands for itself, a space becomes \<open>+\<close>, any other byte of the
  UTF-8 encoding becomes \<open>%XX\<close>).
\<close>

definition spec_encode_byte :: "byte \<Rightarrow> string" where
  "spec_encode_byte b =
     (if b = 0x20 then ''+''
      else if unat b < 128 \<and> char_of (unat b) \<in> set ALWAYS_SAFE then [char_of (unat b)]
      else [CHR ''%'', hex_upper (unat b div 16), hex_upper (unat b mod 16)])"

definition spec_percent_encode :: "string \<Rightarrow> string" where
  "spec_percent_encode s = concat (map spec_encode_byte (encode_utf8 s))"

fun spec_query_string :: "pylib \<Rightarrow> pydict \<Rightarrow> string" where
  "spec_query_string L [] = []"
| "spec_query_string L [(k, v)] =
     spec_percent_encode k @ ''='' @ spec_percent_encode (py_str L v)"
| "spec_query_string L ((k, v) # p # ps) =
     spec_percent_encode k @ ''='' @ spec_percent_encode (py_str L v) @ ''&''
       @ spec_query_string L (p # ps)"

text \<open>Strings that \<open>requote_uri\<close> leaves alone.\<close>

definition plain_chars :: "char list" where
  "plain_chars = ALWAYS_SAFE @ ''+=&?/:''"

fun settled :: "string \<Rightarrow> bool" where
  "settled [] = True"
| "settled (c # cs) =
     (if c = CHR ''%'' then
        (case cs of
           x # y # r \<Rightarrow>
             (case (hex_digit x, hex_digit y) of
                (Some a, Some b) \<Rightarrow>
                  isalnum x \<and> isalnum y \<and> x \<in> set ALWAYS_SAFE \<and> y \<in> set ALWAYS_SAFE
                  \<and> char_of (16 * a + b) \<notin> set UNRESERVED_SET \<and> settled r
              | _ \<Rightarrow> False)
         | _ \<Rightarrow> False)
      else c \<in> set plain_chars \<and> settled cs)"

section \<open>Sample inputs\<close>

text \<open>
  A sample runtime for concrete runs: \<open>repr\<close> on the few floats the examples use, and a
  parser that knows two bodies.
\<close>

definition demo_float_repr :: "pyfloat \<Rightarrow> string" where
  "demo_float_repr f =
     (if f = Finite False 3 (-1) then ''1.5''
      else if f = Finite False 1 1 then ''2.0''
      else if f = Finite False 375 3 then ''3000.0''
      else if f = Finite False 0 0 then ''0.0''
      else if f = Finite True 5 0 then ''-5.0''
      else ''nan'')"

definition demo_json_loads :: "string \<Rightarrow> json option" where
  "demo_json_loads s =
     (if s = ''{}'' then Some (JObject [])
      else if s = ''{\"orderId\":1}'' then Some (JObject [(''orderId'', JNumber ''1'')])
      else None)"

definition demo_lib :: pylib where
  "demo_lib = \<lparr>float_repr = demo_float_repr, json_loads = demo_json_loads\<rparr>"

definition demo_clock :: "nat \<Rightarrow> int" where
  "demo_clock k = 1700000000000 + int k"

text \<open>A sample exchange: the leverage call is refused, every other call is accepted.\<close>

definition demo_remote :: "nat \<Rightarrow> http_request \<Rightarrow> http_outcome" where
  "demo_remote k req =
     (if url req = ''https://testnet.binancefuture.com/fapi/v1/leverage''
      then Returns \<lparr>status_code = 400,
                     resp_text = ''{\"code\":-2019,\"msg\":\"Margin is insufficient\"}''\<rparr>
      else Returns \<lparr>status_code = 200, resp_text = ''{\"orderId\":1}''\<rparr>)"

definition demo_world :: world where
  "demo_world =
     \<lparr>clock = demo_clock, ticks = 0, remote = demo_remote, wire = [], logs = [],
      heap = (\<lambda>r. []), next_ref = 0\<rparr>"

definition demo_client :: client where
  "demo_client = init_client ''key'' ''secret'' None"

section \<open>The parameter validator\<close>

text \<open>
  C5. \<open>validate_common\<close> raises a \<open>ValueError\<close> with a message exactly when the side
  is neither BUY nor SELL, or the quantity is \<open><= 0\<close>, or the type is LIMIT and the price
  is \<open>None\<close>; otherwise it returns. It rejects side HOLD, quantity 0 (of either sign),
  quantity -5 and a LIMIT order without price, and accepts BUY, MARKET, 1.5 without price.
\<close>

theorem validate_common_rejects_iff:
  "((\<exists>msg. msg \<noteq> [] \<and> validate_common L a = Inl (ValueError msg)) \<longleftrightarrow>
      (side a \<notin> {''BUY'', ''SELL''} \<or> float_le_zero (quantity a)
        \<or> (type a = ''LIMIT'' \<and> price a = None)))
   \<and> (validate_common L a = Inr () \<longleftrightarrow>
      \<not> (side a \<notin> {''BUY'', ''SELL''} \<or> float_le_zero (quantity a)
        \<or> (type a = ''LIMIT'' \<and> price a = None)))
   \<and> (\<exists>msg. validate_common L (a\<lparr>side := ''HOLD''\<rparr>) = Inl (ValueError msg))
   \<and> (\<exists>msg. validate_common L (a\<lparr>quantity := Finite sg 0 e\<rparr>) = Inl (ValueError msg))
   \<and> (\<exists>msg. validate_common L (a\<lparr>quantity := Finite True 5 0\<rparr>) = Inl (ValueError msg))
   \<and> (\<exists>msg. validate_common L (a\<lparr>type := ''LIMIT'', price := None\<rparr>) = Inl (ValueError msg))
   \<and> validate_common L \<lparr>symbol = s0, side = ''BUY'', type = ''MARKET'',
          quantity = Finite False 3 (-1), price = None\<rparr> = Inr ()"
  by (auto simp: validate_common_def)

theorem validate_common_rejects_iff_witness:
  "validate_common demo_lib
     \<lparr>symbol = ''ETHUSDT'', side = ''SELL'', type = ''LIMIT'',
      quantity = Finite False 1 1, price = None\<rparr> \<noteq> Inr ()
   \<and> validate_common demo_lib
     \<lparr>symbol = ''ETHUSDT'', side = ''SELL'', type = ''LIMIT'',
      quantity = Finite False 1 1, price = Some (Finite False 375 3)\<rparr> = Inr ()"
  using validate_common_rejects_iff
          [of demo_lib "\<lparr>symbol = ''ETHUSDT'', side = ''SELL'', type = ''LIMIT'',
                quantity = Finite False 1 1, price = None\<rparr>"]
        validate_common_rejects_iff
          [of demo_lib "\<lparr>symbol = ''ETHUSDT'', side = ''SELL'', type = ''LIMIT'',
                quantity = Finite False 1 1, price = Some (Finite False 375 3)\<rparr>"]
  by simp

text \<open>
  C6, as stated: after a successful validation the price is present exactly when the type
  is LIMIT. A MARKET order that carries a price passes validation.
\<close>

theorem validate_common_market_with_price:
  "validate_common demo_lib
     \<lparr>symbol = ''BTCUSDT'', side = ''BUY'', type = ''MARKET'',
      quantity = Finite False 3 (-1), price = Some (Finite False 375 3)\<rparr> = Inr ()
   \<and> \<not> ((price \<lparr>symbol = ''BTCUSDT'', side = ''BUY'', type = ''MARKET'',
               quantity = Finite False 3 (-1), price = Some (Finite False 375 3)\<rparr> \<noteq> None)
          \<longleftrightarrow> (type \<lparr>symbol = ''BTCUSDT'', side = ''BUY'', type = ''MARKET'',
               quantity = Finite False 3 (-1), price = Some (Finite False 375 3)\<rparr> = ''LIMIT''))"
  by (simp add: validate_common_def)

text \<open>
  C6, amended. After a successful validation the side is BUY or SELL, the quantity is not
  \<open><= 0\<close> (so it is \<open>> 0\<close> for every quantity that is a number), and a LIMIT order has a
  price.
\<close>

theorem validate_common_accepted:
  assumes "validate_common L a = Inr ()"
  shows "side a \<in> {''BUY'', ''SELL''}
         \<and> \<not> float_le_zero (quantity a)
         \<and> (quantity a \<noteq> NaN \<longrightarrow> float_gt_zero (quantity a))
         \<and> (type a = ''LIMIT'' \<longrightarrow> price a \<noteq> None)"
proof -
  have gt: "float_gt_zero q" if "\<not> float_le_zero q" "q \<noteq> NaN" for q
    using that by (cases q) auto
  from assms have "side a \<in> {''BUY'', ''SELL''}" "\<not> float_le_zero (quantity a)"
    "type a = ''LIMIT'' \<longrightarrow> price a \<noteq> None"
    by (auto simp: validate_common_def split: if_splits)
  with gt show ?thesis by blast
qed

theorem validate_common_accepted_witness:
  "side \<lparr>symbol = ''ETHUSDT'', side = ''SELL'', type = ''LIMIT'',
      quantity = Finite False 1 1, price = Some (Finite False 375 3)\<rparr> \<in> {''BUY'', ''SELL''}
   \<and> float_gt_zero (quantity \<lparr>symbol = ''ETHUSDT'', side = ''SELL'', type = ''LIMIT'',
      quantity = Finite False 1 1, price = Some (Finite False 375 3)\<rparr>)
   \<and> price \<lparr>symbol = ''ETHUSDT'', side = ''SELL'', type = ''LIMIT'',
      quantity = Finite False 1 1, price = Some (Finite False 375 3)\<rparr> \<noteq> None"
proof -
  have ok: "validate_common demo_lib
     \<lparr>symbol = ''ETHUSDT'', side = ''SELL'', type = ''LIMIT'',
      quantity = Finite False 1 1, price = Some (Finite False 375 3)\<rparr> = Inr ()"
    by (simp add: validate_common_def)
  from validate_common_accepted [OF ok] show ?thesis by simp
qed

text \<open>
  C10. \<open>validate_common\<close> looks at the side, the quantity and, for LIMIT, the price. With
  a valid side, a quantity \<open>> 0\<close> and a price where the type is LIMIT, validation succeeds
  whatever the symbol (the empty string too) and whatever the type other than LIMIT (STOP
  too); the unsupported type is refused only by \<open>create\<close>, with a \<open>ValueError\<close> and before
  anything else happens; a MARKET order with a price passes and \<open>create\<close> does not use the
  price.
\<close>

theorem validate_common_ignores_symbol_and_type:
  assumes "side a \<in> {''BUY'', ''SELL''}" and "float_gt_zero (quantity a)"
    and "type a \<noteq> ''LIMIT'' \<or> price a \<noteq> None"
  shows "validate_common L a = Inr ()
         \<and> validate_common L (a\<lparr>symbol := s0\<rparr>) = Inr ()
         \<and> validate_common L (a\<lparr>symbol := []\<rparr>) = Inr ()
         \<and> (\<forall>t. t \<noteq> ''LIMIT'' \<longrightarrow> validate_common L (a\<lparr>type := t\<rparr>) = Inr ())
         \<and> (\<forall>t. t \<noteq> ''MARKET'' \<and> t \<noteq> ''LIMIT'' \<longrightarrow>
               create L svc (a\<lparr>type := t\<rparr>) w
                 = (Inl (ValueError (''Unsupported order type: '' @ t)), w))
         \<and> validate_common L (a\<lparr>type := ''STOP''\<rparr>) = Inr ()
         \<and> create L svc (a\<lparr>type := ''STOP''\<rparr>) w
              = (Inl (ValueError ''Unsupported order type: STOP''), w)
         \<and> validate_common L (a\<lparr>type := ''MARKET'', price := Some p\<rparr>) = Inr ()
         \<and> create L svc (a\<lparr>type := ''MARKET'', price := Some p\<rparr>) w
              = create L svc (a\<lparr>type := ''MARKET'', price := None\<rparr>) w"
proof -
  have le: "\<not> float_le_zero q" if "float_gt_zero q" for q
    using that by (cases q) auto
  from assms le show ?thesis
    by (auto simp: validate_common_def create_def)
qed

theorem validate_common_ignores_symbol_and_type_witness:
  "validate_common demo_lib
     \<lparr>symbol = [], side = ''BUY'', type = ''STOP'',
      quantity = Finite False 3 (-1), price = None\<rparr> = Inr ()
   \<and> create demo_lib \<lparr>binance_client = demo_client\<rparr>
       \<lparr>symbol = [], side = ''BUY'', type = ''STOP'',
        quantity = Finite False 3 (-1), price = None\<rparr> demo_world
      = (Inl (ValueError ''Unsupported order type: STOP''), demo_world)"
proof -
  have h: "side \<lparr>symbol = [], side = ''BUY'', type = ''STOP'',
      quantity = Finite False 3 (-1), price = None\<rparr> \<in> {''BUY'', ''SELL''}"
    "float_gt_zero (quantity \<lparr>symbol = [], side = ''BUY'', type = ''STOP'',
      quantity = Finite False 3 (-1), price = None\<rparr>)"
    "type \<lparr>symbol = [], side = ''BUY'', type = ''STOP'',
      quantity = Finite False 3 (-1), price = None\<rparr> \<noteq> ''LIMIT''
     \<or> price \<lparr>symbol = [], side = ''BUY'', type = ''STOP'',
      quantity = Finite False 3 (-1), price = None\<rparr> \<noteq> None"
    by simp_all
  from validate_common_ignores_symbol_and_type
         [OF h, of demo_lib _ "\<lparr>binance_client = demo_client\<rparr>" demo_world]
  show ?thesis by simp
qed

section \<open>What a call of the transport does\<close>

lemma map_of_dict_set: "map_of (dict_set k v d) = (map_of d)(k \<mapsto> v)"
  by (induction d) (auto simp: fun_eq_iff)

lemma dict_set_fresh: "k \<notin> fst ` set d \<Longrightarrow> dict_set k v d = d @ [(k, v)]"
  by (induction d) auto

lemma post_request_fst:
  "fst (post_request L self path r w)
     = outcome_result L (remote w (length (wire w))
         (sent_request L self path (heap w r) (clock w (ticks w))))"
  by (simp add: post_request_def time_ms_def setitem_def log_emit_def requests_post_def
        get_request_headers_def raise_for_status_def response_json_def outcome_result_def
        sent_request_def signed_def stamped_def Let_def
      split: http_outcome.splits option.splits)

lemma post_request_snd:
  "wire (snd (post_request L self path r w))
     = wire w @ [sent_request L self path (heap w r) (clock w (ticks w))]"
  "heap (snd (post_request L self path r w))
     = (heap w)(r := signed L self (heap w r) (clock w (ticks w)))"
  "ticks (snd (post_request L self path r w)) = Suc (ticks w)"
  "clock (snd (post_request L self path r w)) = clock w"
  "remote (snd (post_request L self path r w)) = remote w"
  "next_ref (snd (post_request L self path r w)) = next_ref w"
  by (simp_all add: post_request_def time_ms_def setitem_def log_emit_def requests_post_def
        get_request_headers_def raise_for_status_def response_json_def
        sent_request_def signed_def stamped_def Let_def
      split: http_outcome.splits option.splits)

lemma set_leverage_eq:
  "set_leverage L self s l w
     = post_request L self ''/fapi/v1/leverage'' (next_ref w)
         (w\<lparr>heap := (heap w)(next_ref w := [(''symbol'', PStr s), (''leverage'', PInt l)]),
            next_ref := Suc (next_ref w)\<rparr>)"
  by (simp add: set_leverage_def new_dict_def)

lemma ensure_symbol_ready_eq:
  "ensure_symbol_ready L self s w = (Inr (), snd (set_leverage L self s 10 w))"
  by (simp add: ensure_symbol_ready_def split: prod.splits sum.splits)

lemma ensure_symbol_ready_snd:
  "wire (snd (ensure_symbol_ready L self s w))
     = wire w @ [sent_request L self ''/fapi/v1/leverage''
                   [(''symbol'', PStr s), (''leverage'', PInt 10)] (clock w (ticks w))]"
  "ticks (snd (ensure_symbol_ready L self s w)) = Suc (ticks w)"
  "clock (snd (ensure_symbol_ready L self s w)) = clock w"
  "remote (snd (ensure_symbol_ready L self s w)) = remote w"
  "next_ref (snd (ensure_symbol_ready L self s w)) = Suc (next_ref w)"
  by (simp_all add: ensure_symbol_ready_eq set_leverage_eq post_request_snd)

lemma order_after_bootstrap:
  "(case ensure_symbol_ready L self s w of
      (Inl e, w1) \<Rightarrow> (Inl e, w1)
    | (Inr u, w1) \<Rightarrow> (let (r, w2) = new_dict d w1 in post_request L self path r w2))
   = post_request L self path (Suc (next_ref w))
       ((snd (ensure_symbol_ready L self s w))
          \<lparr>heap := (heap (snd (ensure_symbol_ready L self s w)))(Suc (next_ref w) := d),
           next_ref := Suc (Suc (next_ref w))\<rparr>)"
  by (simp add: ensure_symbol_ready_eq new_dict_def set_leverage_eq post_request_snd)

lemma order_after_bootstrap_fst:
  "fst (case ensure_symbol_ready L self s w of
      (Inl e, w1) \<Rightarrow> (Inl e, w1)
    | (Inr u, w1) \<Rightarrow> (let (r, w2) = new_dict d w1 in post_request L self path r w2))
   = outcome_result L (remote w (Suc (length (wire w)))
       (sent_request L self path d (clock w (Suc (ticks w)))))"
  by (simp add: order_after_bootstrap post_request_fst ensure_symbol_ready_snd)

lemma order_after_bootstrap_wire:
  "wire (snd (case ensure_symbol_ready L self s w of
      (Inl e, w1) \<Rightarrow> (Inl e, w1)
    | (Inr u, w1) \<Rightarrow> (let (r, w2) = new_dict d w1 in post_request L self path r w2)))
   = wire w @ [sent_request L self ''/fapi/v1/leverage''
                 [(''symbol'', PStr s), (''leverage'', PInt 10)] (clock w (ticks w)),
               sent_request L self path d (clock w (Suc (ticks w)))]"
  by (simp add: order_after_bootstrap post_request_snd ensure_symbol_ready_snd)

lemma dict_set_keys: "fst ` set (dict_set k v d) = insert k (fst ` set d)"
proof (induction d)
  case Nil
  show ?case by simp
next
  case (Cons p d)
  obtain k' v' where p: "p = (k', v')" by (cases p)
  show ?case
  proof (cases "k' = k")
    case True
    then show ?thesis by (simp add: p)
  next
    case False
    with Cons show ?thesis by (simp add: p insert_commute)
  qed
qed

section \<open>The transport\<close>

text \<open>
  C2, as stated: \<open>_post_request\<close> works on a clone, and the caller's dictionary is
  unchanged after the call. The caller's dictionary \<open>{"symbol": "BTCUSDT"}\<close> has no
  timestamp before the call and has one after it.
\<close>

theorem post_request_changes_callers_dict:
  "map_of (heap (snd (new_dict [(''symbol'', PStr ''BTCUSDT'')] demo_world)) 0) ''timestamp'' = None
   \<and> map_of (heap (snd (post_request demo_lib demo_client ''/fapi/v1/order'' 0
                (snd (new_dict [(''symbol'', PStr ''BTCUSDT'')] demo_world)))) 0) ''timestamp''
       = Some (PInt 1700000000000)
   \<and> heap (snd (post_request demo_lib demo_client ''/fapi/v1/order'' 0
                (snd (new_dict [(''symbol'', PStr ''BTCUSDT'')] demo_world)))) 0
       \<noteq> heap (snd (new_dict [(''symbol'', PStr ''BTCUSDT'')] demo_world)) 0"
  by (simp add: post_request_snd signed_def stamped_def new_dict_def demo_world_def
        demo_clock_def)

text \<open>
  C2, amended. \<open>_post_request\<close> writes into the caller's dictionary: after the call,
  whatever its outcome, that dictionary is the original one with \<open>timestamp\<close> set to the
  time read and then \<open>signature\<close> set to the signer's value over it; every other key
  keeps its value and no other dictionary changes.
\<close>

theorem post_request_writes_callers_dict:
  "heap (snd (post_request L self path r w)) r
     = dict_set ''signature''
         (PStr (sign_request L self (dict_set ''timestamp'' (PInt (clock w (ticks w))) (heap w r))))
         (dict_set ''timestamp'' (PInt (clock w (ticks w))) (heap w r))
   \<and> map_of (heap (snd (post_request L self path r w)) r) ''timestamp''
       = Some (PInt (clock w (ticks w)))
   \<and> map_of (heap (snd (post_request L self path r w)) r) ''signature''
       = Some (PStr (sign_request L self
                  (dict_set ''timestamp'' (PInt (clock w (ticks w))) (heap w r))))
   \<and> (\<forall>k. k \<noteq> ''timestamp'' \<and> k \<noteq> ''signature'' \<longrightarrow>
          map_of (heap (snd (post_request L self path r w)) r) k = map_of (heap w r) k)
   \<and> (\<forall>r'. r' \<noteq> r \<longrightarrow> heap (snd (post_request L self path r w)) r' = heap w r')"
  by (simp add: post_request_snd signed_def stamped_def map_of_dict_set)

theorem post_request_writes_callers_dict_witness:
  "heap (snd (post_request demo_lib demo_client ''/fapi/v1/order'' 0
                (snd (new_dict [(''symbol'', PStr ''BTCUSDT'')] demo_world)))) 0
     = [(''symbol'', PStr ''BTCUSDT''), (''timestamp'', PInt 1700000000000),
        (''signature'', PStr (sign_request demo_lib demo_client
            [(''symbol'', PStr ''BTCUSDT''), (''timestamp'', PInt 1700000000000)]))]
   \<and> map_of (heap (snd (post_request demo_lib demo_client ''/fapi/v1/order'' 0
                (snd (new_dict [(''symbol'', PStr ''BTCUSDT'')] demo_world)))) 0) ''symbol''
       = Some (PStr ''BTCUSDT'')
   \<and> heap (snd (post_request demo_lib demo_client ''/fapi/v1/order'' 0
                (snd (new_dict [(''symbol'', PStr ''BTCUSDT'')] demo_world)))) 1 = []"
proof -
  let ?w = "snd (new_dict [(''symbol'', PStr ''BTCUSDT'')] demo_world)"
  have h: "heap ?w 0 = [(''symbol'', PStr ''BTCUSDT'')]" "heap ?w 1 = []"
    "clock ?w (ticks ?w) = 1700000000000"
    by (simp_all add: new_dict_def demo_world_def demo_clock_def)
  from post_request_writes_callers_dict
         [of demo_lib demo_client "''/fapi/v1/order''" 0 ?w] h
  show ?thesis by simp
qed

text \<open>
  C8. Every call posts exactly one request, with the client's timeout. When the post
  raises (a timeout, say) the call raises the same exception; when the response has a
  status from 400 to 599 the call raises an \<open>HTTPError\<close> that carries the response, its
  status and body as received; otherwise the parsed body is returned, and a body that does
  not parse raises the parser's error.
\<close>

theorem post_request_outcomes:
  "let req = \<lparr>url = BASE_URL @ path, headers = [(''X-MBX-APIKEY'', api_key self)],
              params = signed L self (heap w r) (clock w (ticks w)),
              timeout = request_timeout self\<rparr>;
       out = remote w (length (wire w)) req;
       res = fst (post_request L self path r w)
   in wire (snd (post_request L self path r w)) = wire w @ [req]
      \<and> (\<forall>e. out = Raises e \<longrightarrow> res = Inl e)
      \<and> (out = Raises Timeout \<longrightarrow> res = Inl Timeout)
      \<and> (\<forall>resp. out = Returns resp \<and> 400 \<le> status_code resp \<and> status_code resp < 600
            \<longrightarrow> res = Inl (HTTPError resp))
      \<and> (\<forall>resp j. out = Returns resp
              \<and> \<not> (400 \<le> status_code resp \<and> status_code resp < 600)
              \<and> json_loads L (resp_text resp) = Some j
            \<longrightarrow> res = Inr j)
      \<and> (\<forall>resp. out = Returns resp
              \<and> \<not> (400 \<le> status_code resp \<and> status_code resp < 600)
              \<and> json_loads L (resp_text resp) = None
            \<longrightarrow> res = Inl JSONDecodeError)"
  by (auto simp add: Let_def post_request_fst post_request_snd sent_request_def
        outcome_result_def)

theorem post_request_outcomes_witness:
  "fst (post_request demo_lib demo_client ''/fapi/v1/leverage'' 0 demo_world)
     = Inl (HTTPError \<lparr>status_code = 400,
              resp_text = ''{\"code\":-2019,\"msg\":\"Margin is insufficient\"}''\<rparr>)
   \<and> fst (post_request demo_lib demo_client ''/fapi/v1/order'' 0 demo_world)
     = Inr (JObject [(''orderId'', JNumber ''1'')])
   \<and> length (wire (snd (post_request demo_lib demo_client ''/fapi/v1/leverage'' 0 demo_world)))
     = 1"
proof -
  have h: "wire demo_world = []" "remote demo_world = demo_remote"
    by (simp_all add: demo_world_def)
  from post_request_outcomes [of "''/fapi/v1/leverage''" demo_client demo_lib demo_world 0]
       post_request_outcomes [of "''/fapi/v1/order''" demo_client demo_lib demo_world 0]
  show ?thesis
    by (simp add: Let_def h demo_remote_def BASE_URL_def demo_lib_def demo_json_loads_def)
qed

section \<open>Bootstrap and order routing\<close>

text \<open>
  C4. \<open>ensure_symbol_ready\<close> never raises: it returns normally, whether the leverage
  call returns or raises. It posts one request, to the leverage path, for the symbol with
  leverage 10. The two
  order functions go on to the order call after it in every case, and neither the result
  of an order nor the requests posted change when the outcome of the leverage post is
  replaced by any other outcome \<open>f\<close>.
\<close>

theorem ensure_symbol_ready_never_raises:
  "fst (ensure_symbol_ready L self s w) = Inr ()
   \<and> wire (snd (ensure_symbol_ready L self s w))
       = wire w @ [\<lparr>url = BASE_URL @ ''/fapi/v1/leverage'',
                    headers = [(''X-MBX-APIKEY'', api_key self)],
                    params = signed L self [(''symbol'', PStr s), (''leverage'', PInt 10)]
                               (clock w (ticks w)),
                    timeout = request_timeout self\<rparr>]
   \<and> place_market_order L self s sd q w
       = (let w1 = snd (ensure_symbol_ready L self s w);
              (r, w2) = new_dict [(''symbol'', PStr s), (''side'', PStr sd),
                                  (''type'', PStr ''MARKET''), (''quantity'', PFloat q)] w1
          in post_request L self ''/fapi/v1/order'' r w2)
   \<and> place_limit_order L self s sd q p w
       = (let w1 = snd (ensure_symbol_ready L self s w);
              (r, w2) = new_dict [(''symbol'', PStr s), (''side'', PStr sd),
                                  (''type'', PStr ''LIMIT''), (''timeInForce'', PStr ''GTC''),
                                  (''quantity'', PFloat q), (''price'', opt_float p)] w1
          in post_request L self ''/fapi/v1/order'' r w2)
   \<and> fst (place_market_order L self s sd q (w\<lparr>remote := (remote w)(length (wire w) := f)\<rparr>))
       = fst (place_market_order L self s sd q w)
   \<and> wire (snd (place_market_order L self s sd q
                  (w\<lparr>remote := (remote w)(length (wire w) := f)\<rparr>)))
       = wire (snd (place_market_order L self s sd q w))
   \<and> fst (place_limit_order L self s sd q p (w\<lparr>remote := (remote w)(length (wire w) := f)\<rparr>))
       = fst (place_limit_order L self s sd q p w)
   \<and> wire (snd (place_limit_order L self s sd q p
                  (w\<lparr>remote := (remote w)(length (wire w) := f)\<rparr>)))
       = wire (snd (place_limit_order L self s sd q p w))"
proof -
  have a: "fst (ensure_symbol_ready L self s w) = Inr ()"
    by (simp add: ensure_symbol_ready_eq)
  have b: "wire (snd (ensure_symbol_ready L self s w))
       = wire w @ [\<lparr>url = BASE_URL @ ''/fapi/v1/leverage'',
                    headers = [(''X-MBX-APIKEY'', api_key self)],
                    params = signed L self [(''symbol'', PStr s), (''leverage'', PInt 10)]
                               (clock w (ticks w)),
                    timeout = request_timeout self\<rparr>]"
    by (simp add: ensure_symbol_ready_snd sent_request_def)
  have c: "place_market_order L self s sd q w
       = (let w1 = snd (ensure_symbol_ready L self s w);
              (r, w2) = new_dict [(''symbol'', PStr s), (''side'', PStr sd),
                                  (''type'', PStr ''MARKET''), (''quantity'', PFloat q)] w1
          in post_request L self ''/fapi/v1/order'' r w2)"
    by (simp add: place_market_order_def ensure_symbol_ready_eq Let_def)
  have d: "place_limit_order L self s sd q p w
       = (let w1 = snd (ensure_symbol_ready L self s w);
              (r, w2) = new_dict [(''symbol'', PStr s), (''side'', PStr sd),
                                  (''type'', PStr ''LIMIT''), (''timeInForce'', PStr ''GTC''),
                                  (''quantity'', PFloat q), (''price'', opt_float p)] w1
          in post_request L self ''/fapi/v1/order'' r w2)"
    by (simp add: place_limit_order_def ensure_symbol_ready_eq Let_def)
  have e: "fst (place_market_order L self s sd q (w\<lparr>remote := (remote w)(length (wire w) := f)\<rparr>))
       = fst (place_market_order L self s sd q w)"
    by (simp add: place_market_order_def order_after_bootstrap_fst)
  have f: "wire (snd (place_market_order L self s sd q
                  (w\<lparr>remote := (remote w)(length (wire w) := f)\<rparr>)))
       = wire (snd (place_market_order L self s sd q w))"
    by (simp add: place_market_order_def order_after_bootstrap_wire)
  have g: "fst (place_limit_order L self s sd q p (w\<lparr>remote := (remote w)(length (wire w) := f)\<rparr>))
       = fst (place_limit_order L self s sd q p w)"
    by (simp add: place_limit_order_def order_after_bootstrap_fst)
  have h: "wire (snd (place_limit_order L self s sd q p
                  (w\<lparr>remote := (remote w)(length (wire w) := f)\<rparr>)))
       = wire (snd (place_limit_order L self s sd q p w))"
    by (simp add: place_limit_order_def order_after_bootstrap_wire)
  from a b c d e f g h show ?thesis by blast
qed

theorem ensure_symbol_ready_never_raises_witness:
  "fst (set_leverage demo_lib demo_client ''BTCUSDT'' 10 demo_world)
     = Inl (HTTPError \<lparr>status_code = 400,
              resp_text = ''{\"code\":-2019,\"msg\":\"Margin is insufficient\"}''\<rparr>)
   \<and> fst (ensure_symbol_ready demo_lib demo_client ''BTCUSDT'' demo_world) = Inr ()
   \<and> fst (place_market_order demo_lib demo_client ''BTCUSDT'' ''BUY'' (Finite False 3 (-1))
            demo_world)
     = Inr (JObject [(''orderId'', JNumber ''1'')])"
proof -
  have h: "wire demo_world = []" "remote demo_world = demo_remote" "next_ref demo_world = 0"
    by (simp_all add: demo_world_def)
  have a: "fst (set_leverage demo_lib demo_client ''BTCUSDT'' 10 demo_world)
     = Inl (HTTPError \<lparr>status_code = 400,
              resp_text = ''{\"code\":-2019,\"msg\":\"Margin is insufficient\"}''\<rparr>)"
    by (simp add: set_leverage_eq post_request_fst h sent_request_def demo_remote_def
          BASE_URL_def outcome_result_def)
  note T = ensure_symbol_ready_never_raises
             [of demo_lib demo_client "''BTCUSDT''" demo_world "''BUY''" "Finite False 3 (-1)"]
  from T have b: "fst (ensure_symbol_ready demo_lib demo_client ''BTCUSDT'' demo_world) = Inr ()"
    by blast
  from T have "place_market_order demo_lib demo_client ''BTCUSDT'' ''BUY'' (Finite False 3 (-1))
            demo_world
       = (let w1 = snd (ensure_symbol_ready demo_lib demo_client ''BTCUSDT'' demo_world);
              (r, w2) = new_dict [(''symbol'', PStr ''BTCUSDT''), (''side'', PStr ''BUY''),
                                  (''type'', PStr ''MARKET''),
                                  (''quantity'', PFloat (Finite False 3 (-1)))] w1
          in post_request demo_lib demo_client ''/fapi/v1/order'' r w2)"
    by blast
  then have c: "fst (place_market_order demo_lib demo_client ''BTCUSDT'' ''BUY''
            (Finite False 3 (-1)) demo_world)
     = Inr (JObject [(''orderId'', JNumber ''1'')])"
    by (simp add: Let_def new_dict_def post_request_fst ensure_symbol_ready_snd h
          sent_request_def demo_remote_def BASE_URL_def outcome_result_def demo_lib_def
          demo_json_loads_def)
  from a b c show ?thesis by blast
qed

text \<open>
  C7. For type MARKET and for type LIMIT, \<open>create\<close> runs the bootstrap for the order's
  symbol and then the transport on the order path with a fresh dictionary of exactly the
  listed parameters, and returns what the transport returns. Two requests are posted, the
  leverage call for the symbol and then the order. The order that is posted holds the
  symbol, the side, the type and the quantity of the arguments, for LIMIT also
  \<open>timeInForce = GTC\<close> and the price of the arguments (\<open>None\<close> when they hold none),
  then the time read and the signature over all of these; the result is the outcome of
  that second post. For any other type it raises a \<open>ValueError\<close> and the world is
  unchanged: nothing was posted.
\<close>

theorem create_routes:
  "let c = binance_client svc;
       t0 = clock w (ticks w);
       t1 = clock w (Suc (ticks w));
       lev0 = [(''symbol'', PStr (symbol a)), (''leverage'', PInt 10), (''timestamp'', PInt t0)];
       lev = \<lparr>url = BASE_URL @ ''/fapi/v1/leverage'',
              headers = [(''X-MBX-APIKEY'', api_key c)],
              params = lev0 @ [(''signature'', PStr (sign_request L c lev0))],
              timeout = request_timeout c\<rparr>;
       order = (\<lambda>ps. \<lparr>url = BASE_URL @ ''/fapi/v1/order'',
                         headers = [(''X-MBX-APIKEY'', api_key c)],
                         params = ps @ [(''timestamp'', PInt t1),
                                        (''signature'',
                                         PStr (sign_request L c (ps @ [(''timestamp'', PInt t1)])))],
                         timeout = request_timeout c\<rparr>);
       market = [(''symbol'', PStr (symbol a)), (''side'', PStr (side a)),
                 (''type'', PStr ''MARKET''), (''quantity'', PFloat (quantity a))];
       limit = [(''symbol'', PStr (symbol a)), (''side'', PStr (side a)),
                (''type'', PStr ''LIMIT''), (''timeInForce'', PStr ''GTC''),
                (''quantity'', PFloat (quantity a)),
                (''price'', case price a of None \<Rightarrow> PNone | Some p \<Rightarrow> PFloat p)]
   in (type a = ''MARKET'' \<longrightarrow>
         create L svc a w
           = (let w1 = snd (ensure_symbol_ready L c (symbol a) w);
                  (r, w2) = new_dict market w1
              in post_request L c ''/fapi/v1/order'' r w2)
         \<and> wire (snd (create L svc a w)) = wire w @ [lev, order market]
         \<and> fst (create L svc a w)
             = outcome_result L (remote w (Suc (length (wire w))) (order market)))
      \<and> (type a = ''LIMIT'' \<longrightarrow>
         create L svc a w
           = (let w1 = snd (ensure_symbol_ready L c (symbol a) w);
                  (r, w2) = new_dict limit w1
              in post_request L c ''/fapi/v1/order'' r w2)
         \<and> wire (snd (create L svc a w)) = wire w @ [lev, order limit]
         \<and> fst (create L svc a w)
             = outcome_result L (remote w (Suc (length (wire w))) (order limit)))
      \<and> (type a \<noteq> ''MARKET'' \<and> type a \<noteq> ''LIMIT'' \<longrightarrow>
         create L svc a w = (Inl (ValueError (''Unsupported order type: '' @ type a)), w))"
proof -
  have opt: "opt_float p = (case p of None \<Rightarrow> PNone | Some x \<Rightarrow> PFloat x)" for p
    by (cases p) simp_all
  have m1: "create L svc a w
        = (case new_dict [(''symbol'', PStr (symbol a)), (''side'', PStr (side a)), (''type'', PStr ''MARKET''), (''quantity'', PFloat (quantity a))]
                  (snd (ensure_symbol_ready L (binance_client svc) (symbol a) w)) of
             (r, w2) \<Rightarrow> post_request L (binance_client svc) ''/fapi/v1/order'' r w2)"
    if "type a = ''MARKET''"
    using that by (simp add: create_def place_market_order_def ensure_symbol_ready_eq opt Let_def)
  have m2: "wire (snd (create L svc a w)) = wire w @ [\<lparr>url = BASE_URL @ ''/fapi/v1/leverage'', headers = [(''X-MBX-APIKEY'', api_key (binance_client svc))],
        params = [(''symbol'', PStr (symbol a)), (''leverage'', PInt 10), (''timestamp'', PInt (clock w (ticks w)))]
          @ [(''signature'', PStr (sign_request L (binance_client svc) [(''symbol'', PStr (symbol a)), (''leverage'', PInt 10), (''timestamp'', PInt (clock w (ticks w)))]))],
        timeout = request_timeout (binance_client svc)\<rparr>,
      \<lparr>url = BASE_URL @ ''/fapi/v1/order'', headers = [(''X-MBX-APIKEY'', api_key (binance_client svc))],
        params = [(''symbol'', PStr (symbol a)), (''side'', PStr (side a)), (''type'', PStr ''MARKET''), (''quantity'', PFloat (quantity a))] @ [(''timestamp'', PInt (clock w (Suc (ticks w)))),
          (''signature'', PStr (sign_request L (binance_client svc) ([(''symbol'', PStr (symbol a)), (''side'', PStr (side a)), (''type'', PStr ''MARKET''), (''quantity'', PFloat (quantity a))] @ [(''timestamp'', PInt (clock w (Suc (ticks w))))])))],
        timeout = request_timeout (binance_client svc)\<rparr>]"
    if "type a = ''MARKET''"
    using that
    by (simp add: create_def place_market_order_def order_after_bootstrap_wire sent_request_def
          signed_def stamped_def opt)
  have m3: "fst (create L svc a w)
        = outcome_result L (remote w (Suc (length (wire w)))
            (\<lparr>url = BASE_URL @ ''/fapi/v1/order'', headers = [(''X-MBX-APIKEY'', api_key (binance_client svc))],
        params = [(''symbol'', PStr (symbol a)), (''side'', PStr (side a)), (''type'', PStr ''MARKET''), (''quantity'', PFloat (quantity a))] @ [(''timestamp'', PInt (clock w (Suc (ticks w)))),
          (''signature'', PStr (sign_request L (binance_client svc) ([(''symbol'', PStr (symbol a)), (''side'', PStr (side a)), (''type'', PStr ''MARKET''), (''quantity'', PFloat (quantity a))] @ [(''timestamp'', PInt (clock w (Suc (ticks w))))])))],
        timeout = request_timeout (binance_client svc)\<rparr>))"
    if "type a = ''MARKET''"
    using that
    by (simp add: create_def place_market_order_def order_after_bootstrap_fst sent_request_def
          signed_def stamped_def opt)
  have l1: "create L svc a w
        = (case new_dict [(''symbol'', PStr (symbol a)), (''side'', PStr (side a)), (''type'', PStr ''LIMIT''), (''timeInForce'', PStr ''GTC''), (''quantity'', PFloat (quantity a)), (''price'', case price a of None \<Rightarrow> PNone | Some p \<Rightarrow> PFloat p)]
                  (snd (ensure_symbol_ready L (binance_client svc) (symbol a) w)) of
             (r, w2) \<Rightarrow> post_request L (binance_client svc) ''/fapi/v1/order'' r w2)"
    if "type a = ''LIMIT''"
    using that by (simp add: create_def place_limit_order_def ensure_symbol_ready_eq opt Let_def)
  have l2: "wire (snd (create L svc a w)) = wire w @ [\<lparr>url = BASE_URL @ ''/fapi/v1/leverage'', headers = [(''X-MBX-APIKEY'', api_key (binance_client svc))],
        params = [(''symbol'', PStr (symbol a)), (''leverage'', PInt 10), (''timestamp'', PInt (clock w (ticks w)))]
          @ [(''signature'', PStr (sign_request L (binance_client svc) [(''symbol'', PStr (symbol a)), (''leverage'', PInt 10), (''timestamp'', PInt (clock w (ticks w)))]))],
        timeout = request_timeout (binance_client svc)\<rparr>,
      \<lparr>url = BASE_URL @ ''/fapi/v1/order'', headers = [(''X-MBX-APIKEY'', api_key (binance_client svc))],
        params = [(''symbol'', PStr (symbol a)), (''side'', PStr (side a)), (''type'', PStr ''LIMIT''), (''timeInForce'', PStr ''GTC''), (''quantity'', PFloat (quantity a)), (''price'', case price a of None \<Rightarrow> PNone | Some p \<Rightarrow> PFloat p)] @ [(''timestamp'', PInt (clock w (Suc (ticks w)))),
          (''signature'', PStr (sign_request L (binance_client svc) ([(''symbol'', PStr (symbol a)), (''side'', PStr (side a)), (''type'', PStr ''LIMIT''), (''timeInForce'', PStr ''GTC''), (''quantity'', PFloat (quantity a)), (''price'', case price a of None \<Rightarrow> PNone | Some p \<Rightarrow> PFloat p)] @ [(''timestamp'', PInt (clock w (Suc (ticks w))))])))],
        timeout = request_timeout (binance_client svc)\<rparr>]"
    if "type a = ''LIMIT''"
    using that
    by (simp add: create_def place_limit_order_def order_after_bootstrap_wire sent_request_def
          signed_def stamped_def opt)
  have l3: "fst (create L svc a w)
        = outcome_result L (remote w (Suc (length (wire w)))
            (\<lparr>url = BASE_URL @ ''/fapi/v1/order'', headers = [(''X-MBX-APIKEY'', api_key (binance_client svc))],
        params = [(''symbol'', PStr (symbol a)), (''side'', PStr (side a)), (''type'', PStr ''LIMIT''), (''timeInForce'', PStr ''GTC''), (''quantity'', PFloat (quantity a)), (''price'', case price a of None \<Rightarrow> PNone | Some p \<Rightarrow> PFloat p)] @ [(''timestamp'', PInt (clock w (Suc (ticks w)))),
          (''signature'', PStr (sign_request L (binance_client svc) ([(''symbol'', PStr (symbol a)), (''side'', PStr (side a)), (''type'', PStr ''LIMIT''), (''timeInForce'', PStr ''GTC''), (''quantity'', PFloat (quantity a)), (''price'', case price a of None \<Rightarrow> PNone | Some p \<Rightarrow> PFloat p)] @ [(''timestamp'', PInt (clock w (Suc (ticks w))))])))],
        timeout = request_timeout (binance_client svc)\<rparr>))"
    if "type a = ''LIMIT''"
    using that
    by (simp add: create_def place_limit_order_def order_after_bootstrap_fst sent_request_def
          signed_def stamped_def opt)
  have o: "create L svc a w = (Inl (ValueError (''Unsupported order type: '' @ type a)), w)"
    if "type a \<noteq> ''MARKET''" "type a \<noteq> ''LIMIT''"
    using that by (simp add: create_def)
  from m1 m2 m3 l1 l2 l3 o show ?thesis
    unfolding Let_def by blast
qed

theorem create_routes_witness:
  "wire (snd (create demo_lib \<lparr>binance_client = demo_client\<rparr>
       \<lparr>symbol = ''BTCUSDT'', side = ''BUY'', type = ''MARKET'',
        quantity = Finite False 3 (-1), price = None\<rparr> demo_world))
     = [\<lparr>url = ''https://testnet.binancefuture.com/fapi/v1/leverage'',
         headers = [(''X-MBX-APIKEY'', ''key'')],
         params = [(''symbol'', PStr ''BTCUSDT''), (''leverage'', PInt 10),
                   (''timestamp'', PInt 1700000000000),
                   (''signature'', PStr (sign_request demo_lib demo_client
                      [(''symbol'', PStr ''BTCUSDT''), (''leverage'', PInt 10),
                       (''timestamp'', PInt 1700000000000)]))],
         timeout = 10\<rparr>,
        \<lparr>url = ''https://testnet.binancefuture.com/fapi/v1/order'',
         headers = [(''X-MBX-APIKEY'', ''key'')],
         params = [(''symbol'', PStr ''BTCUSDT''), (''side'', PStr ''BUY''), (''type'', PStr ''MARKET''), (''quantity'', PFloat (Finite False 3 (-1))),
                   (''timestamp'', PInt 1700000000001),
                   (''signature'', PStr (sign_request demo_lib demo_client
                      [(''symbol'', PStr ''BTCUSDT''), (''side'', PStr ''BUY''), (''type'', PStr ''MARKET''), (''quantity'', PFloat (Finite False 3 (-1))),
                       (''timestamp'', PInt 1700000000001)]))],
         timeout = 10\<rparr>]
   \<and> fst (create demo_lib \<lparr>binance_client = demo_client\<rparr>
       \<lparr>symbol = ''BTCUSDT'', side = ''BUY'', type = ''MARKET'',
        quantity = Finite False 3 (-1), price = None\<rparr> demo_world)
     = Inr (JObject [(''orderId'', JNumber ''1'')])
   \<and> wire (snd (create demo_lib \<lparr>binance_client = demo_client\<rparr>
       \<lparr>symbol = ''ETHUSDT'', side = ''SELL'', type = ''LIMIT'',
        quantity = Finite False 1 1, price = Some (Finite False 375 3)\<rparr> demo_world))
     = [\<lparr>url = ''https://testnet.binancefuture.com/fapi/v1/leverage'',
         headers = [(''X-MBX-APIKEY'', ''key'')],
         params = [(''symbol'', PStr ''ETHUSDT''), (''leverage'', PInt 10),
                   (''timestamp'', PInt 1700000000000),
                   (''signature'', PStr (sign_request demo_lib demo_client
                      [(''symbol'', PStr ''ETHUSDT''), (''leverage'', PInt 10),
                       (''timestamp'', PInt 1700000000000)]))],
         timeout = 10\<rparr>,
        \<lparr>url = ''https://testnet.binancefuture.com/fapi/v1/order'',
         headers = [(''X-MBX-APIKEY'', ''key'')],
         params = [(''symbol'', PStr ''ETHUSDT''), (''side'', PStr ''SELL''), (''type'', PStr ''LIMIT''), (''timeInForce'', PStr ''GTC''), (''quantity'', PFloat (Finite False 1 1)), (''price'', PFloat (Finite False 375 3)),
                   (''timestamp'', PInt 1700000000001),
                   (''signature'', PStr (sign_request demo_lib demo_client
                      [(''symbol'', PStr ''ETHUSDT''), (''side'', PStr ''SELL''), (''type'', PStr ''LIMIT''), (''timeInForce'', PStr ''GTC''), (''quantity'', PFloat (Finite False 1 1)), (''price'', PFloat (Finite False 375 3)),
                       (''timestamp'', PInt 1700000000001)]))],
         timeout = 10\<rparr>]
   \<and> wire (snd (create demo_lib \<lparr>binance_client = demo_client\<rparr>
       \<lparr>symbol = ''ETHUSDT'', side = ''SELL'', type = ''LIMIT'',
        quantity = Finite False 1 1, price = None\<rparr> demo_world))
     = [\<lparr>url = ''https://testnet.binancefuture.com/fapi/v1/leverage'',
         headers = [(''X-MBX-APIKEY'', ''key'')],
         params = [(''symbol'', PStr ''ETHUSDT''), (''leverage'', PInt 10),
                   (''timestamp'', PInt 1700000000000),
                   (''signature'', PStr (sign_request demo_lib demo_client
                      [(''symbol'', PStr ''ETHUSDT''), (''leverage'', PInt 10),
                       (''timestamp'', PInt 1700000000000)]))],
         timeout = 10\<rparr>,
        \<lparr>url = ''https://testnet.binancefuture.com/fapi/v1/order'',
         headers = [(''X-MBX-APIKEY'', ''key'')],
         params = [(''symbol'', PStr ''ETHUSDT''), (''side'', PStr ''SELL''), (''type'', PStr ''LIMIT''), (''timeInForce'', PStr ''GTC''), (''quantity'', PFloat (Finite False 1 1)), (''price'', PNone),
                   (''timestamp'', PInt 1700000000001),
                   (''signature'', PStr (sign_request demo_lib demo_client
                      [(''symbol'', PStr ''ETHUSDT''), (''side'', PStr ''SELL''), (''type'', PStr ''LIMIT''), (''timeInForce'', PStr ''GTC''), (''quantity'', PFloat (Finite False 1 1)), (''price'', PNone),
                       (''timestamp'', PInt 1700000000001)]))],
         timeout = 10\<rparr>]
   \<and> create demo_lib \<lparr>binance_client = demo_client\<rparr>
       \<lparr>symbol = ''BTCUSDT'', side = ''BUY'', type = ''STOP'',
        quantity = Finite False 3 (-1), price = None\<rparr> demo_world
     = (Inl (ValueError ''Unsupported order type: STOP''), demo_world)"
proof -
  have tm: "type \<lparr>symbol = ''BTCUSDT'', side = ''BUY'', type = ''MARKET'',
        quantity = Finite False 3 (-1), price = None\<rparr> = ''MARKET''"
    by simp
  have tl: "type \<lparr>symbol = ''ETHUSDT'', side = ''SELL'', type = ''LIMIT'',
        quantity = Finite False 1 1, price = Some (Finite False 375 3)\<rparr> = ''LIMIT''"
    by simp
  have tn: "type \<lparr>symbol = ''ETHUSDT'', side = ''SELL'', type = ''LIMIT'',
        quantity = Finite False 1 1, price = None\<rparr> = ''LIMIT''"
    by simp
  have to: "type \<lparr>symbol = ''BTCUSDT'', side = ''BUY'', type = ''STOP'',
        quantity = Finite False 3 (-1), price = None\<rparr> \<noteq> ''MARKET''
      \<and> type \<lparr>symbol = ''BTCUSDT'', side = ''BUY'', type = ''STOP'',
        quantity = Finite False 3 (-1), price = None\<rparr> \<noteq> ''LIMIT''"
    by simp
  note T = create_routes [where svc = "\<lparr>binance_client = demo_client\<rparr>" and w = demo_world
             and L = demo_lib, unfolded Let_def]
  note M = T [THEN conjunct1, rule_format, OF tm, THEN conjunct2]
  note K = T [THEN conjunct2, THEN conjunct1, rule_format, OF tl, THEN conjunct2, THEN conjunct1]
  note N = T [THEN conjunct2, THEN conjunct1, rule_format, OF tn, THEN conjunct2, THEN conjunct1]
  note O = T [THEN conjunct2, THEN conjunct2, rule_format, OF to]
  have A: "wire (snd (create demo_lib \<lparr>binance_client = demo_client\<rparr>
       \<lparr>symbol = ''BTCUSDT'', side = ''BUY'', type = ''MARKET'',
        quantity = Finite False 3 (-1), price = None\<rparr> demo_world))
     = [\<lparr>url = ''https://testnet.binancefuture.com/fapi/v1/leverage'',
         headers = [(''X-MBX-APIKEY'', ''key'')],
         params = [(''symbol'', PStr ''BTCUSDT''), (''leverage'', PInt 10),
                   (''timestamp'', PInt 1700000000000),
                   (''signature'', PStr (sign_request demo_lib demo_client
                      [(''symbol'', PStr ''BTCUSDT''), (''leverage'', PInt 10),
                       (''timestamp'', PInt 1700000000000)]))],
         timeout = 10\<rparr>,
        \<lparr>url = ''https://testnet.binancefuture.com/fapi/v1/order'',
         headers = [(''X-MBX-APIKEY'', ''key'')],
         params = [(''symbol'', PStr ''BTCUSDT''), (''side'', PStr ''BUY''), (''type'', PStr ''MARKET''), (''quantity'', PFloat (Finite False 3 (-1))),
                   (''timestamp'', PInt 1700000000001),
                   (''signature'', PStr (sign_request demo_lib demo_client
                      [(''symbol'', PStr ''BTCUSDT''), (''side'', PStr ''BUY''), (''type'', PStr ''MARKET''), (''quantity'', PFloat (Finite False 3 (-1))),
                       (''timestamp'', PInt 1700000000001)]))],
         timeout = 10\<rparr>]"
    using M [THEN conjunct1] by (simp add: demo_world_def demo_clock_def demo_client_def init_client_def BASE_URL_def)
  have B: "fst (create demo_lib \<lparr>binance_client = demo_client\<rparr>
       \<lparr>symbol = ''BTCUSDT'', side = ''BUY'', type = ''MARKET'',
        quantity = Finite False 3 (-1), price = None\<rparr> demo_world)
     = Inr (JObject [(''orderId'', JNumber ''1'')])"
    using M [THEN conjunct2]
    by (simp add: demo_world_def demo_clock_def demo_client_def init_client_def BASE_URL_def demo_remote_def outcome_result_def demo_lib_def
          demo_json_loads_def)
  have C: "wire (snd (create demo_lib \<lparr>binance_client = demo_client\<rparr>
       \<lparr>symbol = ''ETHUSDT'', side = ''SELL'', type = ''LIMIT'',
        quantity = Finite False 1 1, price = Some (Finite False 375 3)\<rparr> demo_world))
     = [\<lparr>url = ''https://testnet.binancefuture.com/fapi/v1/leverage'',
         headers = [(''X-MBX-APIKEY'', ''key'')],
         params = [(''symbol'', PStr ''ETHUSDT''), (''leverage'', PInt 10),
                   (''timestamp'', PInt 1700000000000),
                   (''signature'', PStr (sign_request demo_lib demo_client
                      [(''symbol'', PStr ''ETHUSDT''), (''leverage'', PInt 10),
                       (''timestamp'', PInt 1700000000000)]))],
         timeout = 10\<rparr>,
        \<lparr>url = ''https://testnet.binancefuture.com/fapi/v1/order'',
         headers = [(''X-MBX-APIKEY'', ''key'')],
         params = [(''symbol'', PStr ''ETHUSDT''), (''side'', PStr ''SELL''), (''type'', PStr ''LIMIT''), (''timeInForce'', PStr ''GTC''), (''quantity'', PFloat (Finite False 1 1)), (''price'', PFloat (Finite False 375 3)),
                   (''timestamp'', PInt 1700000000001),
                   (''signature'', PStr (sign_request demo_lib demo_client
                      [(''symbol'', PStr ''ETHUSDT''), (''side'', PStr ''SELL''), (''type'', PStr ''LIMIT''), (''timeInForce'', PStr ''GTC''), (''quantity'', PFloat (Finite False 1 1)), (''price'', PFloat (Finite False 375 3)),
                       (''timestamp'', PInt 1700000000001)]))],
         timeout = 10\<rparr>]"
    using K by (simp add: demo_world_def demo_clock_def demo_client_def init_client_def BASE_URL_def)
  have D: "wire (snd (create demo_lib \<lparr>binance_client = demo_client\<rparr>
       \<lparr>symbol = ''ETHUSDT'', side = ''SELL'', type = ''LIMIT'',
        quantity = Finite False 1 1, price = None\<rparr> demo_world))
     = [\<lparr>url = ''https://testnet.binancefuture.com/fapi/v1/leverage'',
         headers = [(''X-MBX-APIKEY'', ''key'')],
         params = [(''symbol'', PStr ''ETHUSDT''), (''leverage'', PInt 10),
                   (''timestamp'', PInt 1700000000000),
                   (''signature'', PStr (sign_request demo_lib demo_client
                      [(''symbol'', PStr ''ETHUSDT''), (''leverage'', PInt 10),
                       (''timestamp'', PInt 1700000000000)]))],
         timeout = 10\<rparr>,
        \<lparr>url = ''https://testnet.binancefuture.com/fapi/v1/order'',
         headers = [(''X-MBX-APIKEY'', ''key'')],
         params = [(''symbol'', PStr ''ETHUSDT''), (''side'', PStr ''SELL''), (''type'', PStr ''LIMIT''), (''timeInForce'', PStr ''GTC''), (''quantity'', PFloat (Finite False 1 1)), (''price'', PNone),
                   (''timestamp'', PInt 1700000000001),
                   (''signature'', PStr (sign_request demo_lib demo_client
                      [(''symbol'', PStr ''ETHUSDT''), (''side'', PStr ''SELL''), (''type'', PStr ''LIMIT''), (''timeInForce'', PStr ''GTC''), (''quantity'', PFloat (Finite False 1 1)), (''price'', PNone),
                       (''timestamp'', PInt 1700000000001)]))],
         timeout = 10\<rparr>]"
    using N by (simp add: demo_world_def demo_clock_def demo_client_def init_client_def BASE_URL_def)
  have E: "create demo_lib \<lparr>binance_client = demo_client\<rparr>
       \<lparr>symbol = ''BTCUSDT'', side = ''BUY'', type = ''STOP'',
        quantity = Finite False 3 (-1), price = None\<rparr> demo_world
     = (Inl (ValueError ''Unsupported order type: STOP''), demo_world)"
    using O by simp
  from A B C D E show ?thesis by (intro conjI)
qed

section \<open>Encoding lemmas\<close>

text \<open>
  The first round of the compression of the one-block message \<open>abc\<close>, as in the worked
  example of FIPS 180-4.
\<close>

lemma sha_round_first_of_abc:
  "sha_round H256 (K256 ! 0, 0x61626380)
     = (0x5D6AEBCD, 0x6A09E667, 0xBB67AE85, 0x3C6EF372,
        0xFA2A4622, 0x510E527F, 0x9B05688C, 0x1F83D9AB)"
  by (simp add: sha_round_def H256_def K256_def Sigma0_def Sigma1_def Ch_def Maj_def rotr_def
        Let_def)

lemma unat_byte_less: "unat (b :: byte) < 256"
  using unsigned_less [of b, where ?'a = nat] by simp

lemma char_of_unat_eq: "(char_of (unat (b :: byte)) = c) = (unat b = of_char c)"
  using unat_byte_less [of b] by (simp add: char_of_eq_iff take_bit_nat_eq_self)

lemma byte_eq_unat: "((b :: byte) = c) = (unat b = unat c)"
  by (simp add: word_unat_eq_iff)

lemma unat_of_nat_byte: "n < 256 \<Longrightarrow> unat (of_nat n :: byte) = n"
  by (simp add: unat_of_nat)

lemma space_byte: "(char_of (unat (b :: byte)) = CHR '' '') = (b = 0x20)"
  by (simp add: char_of_unat_eq byte_eq_unat)

lemma utf8_char_space: "(0x20 \<in> set (utf8_char c)) = (c = CHR '' '')"
proof -
  have n: "(of_char c :: nat) < 256" by simp
  have e: "(of_char c = (32::nat)) = (c = CHR '' '')"
  proof -
    have "(of_char (CHR '' '') :: nat) = 32" by simp
    then show ?thesis by (metis of_char_eq_iff)
  qed
  have h: "unat (of_nat (192 + of_char c div 64) :: byte) = 192 + of_char c div 64"
    "unat (of_nat (128 + of_char c mod 64) :: byte) = 128 + of_char c mod 64"
    using n by (simp_all only: unat_of_nat_byte)
  show ?thesis
  proof (cases "(of_char c :: nat) < 128")
    case True
    with n e show ?thesis
      by (simp add: utf8_char_def Let_def byte_eq_unat unat_of_nat_byte) 
  next
    case False
    with e have "c \<noteq> CHR '' ''" by auto
    with False h show ?thesis
      by (simp add: utf8_char_def Let_def byte_eq_unat del: of_nat_add of_nat_numeral)
  qed
qed

lemma encode_utf8_space: "(0x20 \<in> set (encode_utf8 s)) = (CHR '' '' \<in> set s)"
  by (induction s) (auto simp add: encode_utf8_def utf8_char_space)

lemma space_not_safe: "CHR '' '' \<notin> set ALWAYS_SAFE"
  by (simp add: ALWAYS_SAFE_def)

lemma hex_upper_not_space: "hex_upper d \<noteq> CHR '' ''"
proof -
  have "hex_upper d \<in> set ''0123456789ABCDEF''"
    unfolding hex_upper_def by (rule nth_mem) simp
  then show ?thesis by auto
qed

lemma quoter_plain: "b \<noteq> 0x20 \<Longrightarrow> quoter [] b = spec_encode_byte b"
  by (auto simp: quoter_def spec_encode_byte_def)

lemma quoter_space:
  "map (\<lambda>c. if c = CHR '' '' then CHR ''+'' else c) (quoter '' '' b) = spec_encode_byte b"
proof (cases "b = 0x20")
  case True
  have "char_of (32::nat) = CHR '' ''"
    using space_byte [of "0x20"] by simp
  with True show ?thesis by (simp add: quoter_def spec_encode_byte_def)
next
  case False
  then have "char_of (unat b) \<noteq> CHR '' ''" by (simp add: space_byte)
  with False show ?thesis
    by (auto simp: quoter_def spec_encode_byte_def hex_upper_not_space)
qed

lemma quote_plus_spec: "quote_plus s = spec_percent_encode s"
proof (cases "CHR '' '' \<in> set s")
  case True
  then have "s \<noteq> []" by auto
  with True show ?thesis
    by (simp add: quote_plus_def quote_def quote_from_bytes_def spec_percent_encode_def
          map_concat quoter_space comp_def)
next
  case False
  then have "\<forall>b \<in> set (encode_utf8 s). b \<noteq> 0x20"
    using encode_utf8_space [of s] by auto
  then have "map (quoter []) (encode_utf8 s) = map spec_encode_byte (encode_utf8 s)"
    by (simp add: quoter_plain)
  moreover have "quote_plus s = concat (map (quoter []) (encode_utf8 s))"
    using False
    by (cases "s = []")
       (simp_all add: quote_plus_def quote_def quote_from_bytes_def encode_utf8_def)
  ultimately show ?thesis by (simp only: spec_percent_encode_def)
qed

lemma urlencode_spec: "urlencode L P = spec_query_string L P"
  unfolding urlencode_def
  by (induction L P rule: spec_query_string.induct) (simp_all add: quote_plus_spec)

lemma length_sha256: "length (sha256 m) = 32"
  by (simp add: sha256_def state_bytes_def be_bytes32_def split: prod.splits)

lemma length_hmac_sha256: "length (hmac_sha256 key msg) = 32"
  by (simp add: hmac_sha256_def Let_def length_sha256)

lemma length_hexdigest: "length (hexdigest bs) = 2 * length bs"
  by (induction bs) (simp_all add: hexdigest_def)

lemma hex_lower_in: "hex_lower d \<in> set ''0123456789abcdef''"
  unfolding hex_lower_def by (rule nth_mem) simp

lemma set_hexdigest: "set (hexdigest bs) \<subseteq> set ''0123456789abcdef''"
proof
  fix c
  assume "c \<in> set (hexdigest bs)"
  then have "\<exists>d. c = hex_lower d"
    by (auto simp: hexdigest_def)
  then obtain d where "c = hex_lower d" ..
  then show "c \<in> set ''0123456789abcdef''"
    by (simp only: hex_lower_in)
qed

lemma safe_is_ascii: "c \<in> set ALWAYS_SAFE \<Longrightarrow> (of_char c :: nat) < 128"
  by (auto simp: ALWAYS_SAFE_def)

lemma spec_encode_safe_char:
  assumes "c \<in> set ALWAYS_SAFE"
  shows "concat (map spec_encode_byte (utf8_char c)) = [c]"
proof -
  have lt: "(of_char c :: nat) < 128" using assms by (rule safe_is_ascii)
  then have u: "unat (of_nat (of_char c) :: byte) = of_char c"
    by (simp add: unat_of_nat_byte)
  have "c \<noteq> CHR '' ''" using assms space_not_safe by auto
  then have "(of_nat (of_char c) :: byte) \<noteq> 0x20"
    using space_byte [of "of_nat (of_char c)"] by (simp only: u char_of_char) simp
  with lt u assms show ?thesis
    by (simp add: utf8_char_def Let_def spec_encode_byte_def del: of_nat_of_char)
qed

lemma spec_percent_encode_safe:
  "set k \<subseteq> set ALWAYS_SAFE \<Longrightarrow> spec_percent_encode k = k"
  by (induction k) (simp_all add: spec_percent_encode_def encode_utf8_def spec_encode_safe_char)

lemma quote_bytes: "quote s safe = quote_from_bytes (encode_utf8 s) safe"
  by (simp add: quote_def quote_from_bytes_def encode_utf8_def)

lemma quote_plus_bytes_utf8: "quote_plus_bytes (encode_utf8 s) = quote_plus s"
  by (simp add: quote_plus_bytes_def quote_plus_def quote_bytes encode_utf8_space)

lemma wire_value_eq: "wire_value L v = quote_plus (py_str L v)"
  by (cases v) (simp_all add: quote_plus_bytes_utf8)

lemma encode_params_urlencode:
  "PNone \<notin> snd ` set ps \<Longrightarrow> encode_params L ps = urlencode L ps"
proof -
  assume "PNone \<notin> snd ` set ps"
  then have "filter (\<lambda>(k, v). v \<noteq> PNone) ps = ps"
    by (induction ps) auto
  then show ?thesis
    by (simp add: encode_params_def urlencode_def quote_plus_bytes_utf8 wire_value_eq)
qed

lemma percent_not_plain: "CHR ''%'' \<notin> set plain_chars"
  by (simp add: plain_chars_def ALWAYS_SAFE_def)

lemma settled_append: "settled a \<Longrightarrow> settled b \<Longrightarrow> settled (a @ b)"
  by (induction a rule: settled.induct)
     (auto split: if_splits list.splits option.splits)

lemma settled_plain: "set a \<subseteq> set plain_chars \<Longrightarrow> settled a"
  using percent_not_plain by (induction a) auto

lemma settled_unquote: "settled q \<Longrightarrow> unquote_unreserved q = Some q"
proof (induction q rule: settled.induct)
  case 1
  show ?case by simp
next
  case (2 c cs)
  show ?case
  proof (cases "c = CHR ''%''")
    case False
    with 2 show ?thesis by simp
  next
    case True
    with "2.prems" obtain x y r a b where
      cs: "cs = x # y # r" and h: "hex_digit x = Some a" "hex_digit y = Some b"
      and al: "isalnum x" "isalnum y" and sf: "x \<in> set ALWAYS_SAFE" "y \<in> set ALWAYS_SAFE"
      and nu: "char_of (16 * a + b) \<notin> set UNRESERVED_SET" and r: "settled r"
      by (auto split: list.splits option.splits)
    have np: "x \<noteq> CHR ''%''" "y \<noteq> CHR ''%''"
      using sf by (auto simp: ALWAYS_SAFE_def)
    from "2.IH"(1) True cs h r have "unquote_unreserved r = Some r" by simp
    with np have "unquote_unreserved cs = Some cs" by (simp add: cs)
    with True cs h al nu show ?thesis by simp
  qed
qed

lemma hex_upper_chars: "isalnum (hex_upper d) \<and> hex_upper d \<in> set ALWAYS_SAFE"
proof -
  have "hex_upper d \<in> set ''0123456789ABCDEF''"
    unfolding hex_upper_def by (rule nth_mem) simp
  moreover have "\<forall>c \<in> set ''0123456789ABCDEF''. isalnum c \<and> c \<in> set ALWAYS_SAFE"
    by (simp add: isalnum_def ALWAYS_SAFE_def)
  ultimately show ?thesis by blast
qed

lemma hex_digit_upper_all:
  "list_all (\<lambda>i. hex_digit (hex_upper i) = Some i) [0..<16]"
  by code_simp

lemma hex_digit_upper: "hex_digit (hex_upper d) = Some (d mod 16)"
proof -
  have "d mod 16 \<in> set [0..<16]" by simp
  with hex_digit_upper_all have "hex_digit (hex_upper (d mod 16)) = Some (d mod 16)"
    unfolding list_all_iff by blast
  then show ?thesis by (simp add: hex_upper_def)
qed

lemma unreserved_is_safe: "set UNRESERVED_SET = set ALWAYS_SAFE"
  by (auto simp: UNRESERVED_SET_def ALWAYS_SAFE_def)

lemma safe_is_plain: "c \<in> set ALWAYS_SAFE \<Longrightarrow> c \<in> set plain_chars"
  by (simp add: plain_chars_def)

lemma byte_split: "16 * (unat (b :: byte) div 16 mod 16) + unat b mod 16 = unat b"
proof -
  have "unat b div 16 < 16" using unat_byte_less [of b] by simp
  then show ?thesis by simp
qed

lemma settled_encode_byte: "settled (spec_encode_byte b)"
proof (cases "b = 0x20")
  case True
  then show ?thesis by (simp add: spec_encode_byte_def plain_chars_def)
next
  case sp: False
  show ?thesis
  proof (cases "unat b < 128 \<and> char_of (unat b) \<in> set ALWAYS_SAFE")
    case True
    then have "char_of (unat b) \<in> set plain_chars" by (simp add: safe_is_plain)
    moreover have "char_of (unat b) \<noteq> CHR ''%''"
      using True by (auto simp: ALWAYS_SAFE_def)
    ultimately show ?thesis using sp True by (simp add: spec_encode_byte_def)
  next
    case False
    have "char_of (unat b) \<notin> set ALWAYS_SAFE"
    proof
      assume m: "char_of (unat b) \<in> set ALWAYS_SAFE"
      then have "(of_char (char_of (unat b)) :: nat) < 128" by (rule safe_is_ascii)
      then have "unat b < 128" using unat_byte_less [of b] by simp
      with m False show False by simp
    qed
    then have "char_of (16 * (unat b div 16 mod 16) + unat b mod 16) \<notin> set UNRESERVED_SET"
      by (simp only: byte_split unreserved_is_safe) simp
    moreover have "CHR ''%'' \<notin> set ALWAYS_SAFE" by (simp add: ALWAYS_SAFE_def)
    ultimately show ?thesis
      using sp False hex_upper_chars [of "unat b div 16"] hex_upper_chars [of "unat b mod 16"]
      by (auto simp add: spec_encode_byte_def hex_digit_upper safe_is_plain)
  qed
qed

lemma settled_concat: "(\<And>x. x \<in> set xs \<Longrightarrow> settled x) \<Longrightarrow> settled (concat xs)"
  by (induction xs) (simp_all add: settled_append)

lemma settled_quote_plus: "settled (quote_plus s)"
  by (simp add: quote_plus_spec spec_percent_encode_def)
     (rule settled_concat, auto simp: settled_encode_byte)

lemma settled_urlencode: "settled (urlencode L P)"
proof -
  have e: "CHR ''='' \<in> set plain_chars" "CHR ''&'' \<in> set plain_chars"
    by (simp_all add: plain_chars_def)
  show ?thesis
    unfolding urlencode_def
    by (induction P rule: spec_query_string.induct)
       (simp_all add: settled_append settled_quote_plus e)
qed

lemma wire_safe_ascii:
  "c \<in> set (ALWAYS_SAFE @ safe_with_percent) \<Longrightarrow> (of_char c :: nat) < 128"
  by (auto simp: ALWAYS_SAFE_def safe_with_percent_def)

lemma plain_is_wire_safe: "c \<in> set plain_chars \<Longrightarrow> c \<in> set (ALWAYS_SAFE @ safe_with_percent)"
  by (auto simp: plain_chars_def safe_with_percent_def)

lemma settled_chars: "settled q \<Longrightarrow> set q \<subseteq> set (ALWAYS_SAFE @ safe_with_percent)"
proof (induction q rule: settled.induct)
  case 1
  show ?case by simp
next
  case (2 c cs)
  show ?case
  proof (cases "c = CHR ''%''")
    case False
    with 2 plain_is_wire_safe [of c] show ?thesis by simp
  next
    case True
    with "2.prems" obtain x y r a b where
      cs: "cs = x # y # r" and h: "hex_digit x = Some a" "hex_digit y = Some b"
      and sf: "x \<in> set ALWAYS_SAFE" "y \<in> set ALWAYS_SAFE" and r: "settled r"
      by (auto split: list.splits option.splits)
    from "2.IH"(1) True cs h r have "set r \<subseteq> set (ALWAYS_SAFE @ safe_with_percent)" by simp
    moreover have "c \<in> set (ALWAYS_SAFE @ safe_with_percent)"
      using True by (simp add: safe_with_percent_def)
    ultimately show ?thesis using sf cs by simp
  qed
qed

lemma quoter_safe_char:
  assumes "c \<in> set (ALWAYS_SAFE @ safe)" and "(of_char c :: nat) < 128"
  shows "concat (map (quoter safe) (utf8_char c)) = [c]"
proof -
  have u: "unat (of_nat (of_char c) :: byte) = of_char c"
    using assms(2) by (simp add: unat_of_nat_byte)
  from assms u show ?thesis
    by (simp add: utf8_char_def Let_def quoter_def del: of_nat_of_char set_append)
qed

lemma quote_fixed:
  "\<forall>c \<in> set q. c \<in> set (ALWAYS_SAFE @ safe) \<and> (of_char c :: nat) < 128 \<Longrightarrow> quote q safe = q"
  by (induction q)
     (simp_all add: quote_bytes quote_from_bytes_def encode_utf8_def quoter_safe_char
        del: set_append)

lemma requote_uri_settled: "settled q \<Longrightarrow> requote_uri q = q"
proof -
  assume s: "settled q"
  then have "\<forall>c \<in> set q. c \<in> set (ALWAYS_SAFE @ safe_with_percent) \<and> (of_char c :: nat) < 128"
    using settled_chars [OF s] wire_safe_ascii by blast
  then have "quote q safe_with_percent = q" by (rule quote_fixed)
  with s show ?thesis by (simp add: requote_uri_def settled_unquote)
qed

lemma quote_plus_safe: "set s \<subseteq> set ALWAYS_SAFE \<Longrightarrow> quote_plus s = s"
  by (simp add: quote_plus_spec spec_percent_encode_safe)

lemma int_str_sample: "int_str 1700000000000 = ''1700000000000''"
  by (simp add: int_str_def digit_char_def char_of_def bit_Suc_0_iff)

lemma dict_set_entry: "(k', v') \<in> set (dict_set k v d) \<Longrightarrow> v' = v \<or> (k', v') \<in> set d"
  by (induction d) (auto split: if_splits)

lemma dict_set_values: "snd ` set (dict_set k v d) \<subseteq> insert v (snd ` set d)"
  using dict_set_entry [of _ _ k v d] by force

lemma dict_set_nonempty: "dict_set k v d \<noteq> []"
  by (cases d) (auto split: if_splits)

lemma join_amp_snoc: "xs \<noteq> [] \<Longrightarrow> join_amp (xs @ [x]) = join_amp xs @ ''&'' @ x"
  by (induction xs rule: join_amp.induct) simp_all

lemma urlencode_snoc:
  "ps \<noteq> [] \<Longrightarrow>
     urlencode L (ps @ [(k, v)])
       = urlencode L ps @ ''&'' @ quote_plus k @ ''='' @ quote_plus (py_str L v)"
  by (simp add: urlencode_def join_amp_snoc)

lemma requote_uri_front:
  assumes "set u \<subseteq> set (ALWAYS_SAFE @ '':/'')"
  shows "requote_uri (u @ ''?'' @ urlencode L ps) = u @ ''?'' @ urlencode L ps"
proof -
  have "set u \<subseteq> set plain_chars"
    using assms by (auto simp: plain_chars_def)
  then have "settled u" by (rule settled_plain)
  moreover have "settled ''?''" by (simp add: plain_chars_def)
  ultimately have "settled (u @ ''?'' @ urlencode L ps)"
    by (intro settled_append settled_urlencode)
  then show ?thesis by (rule requote_uri_settled)
qed

section \<open>The request signer\<close>

text \<open>
  C1. For every parameter dictionary and secret, \<open>_sign_request\<close> returns the lowercase
  hexadecimal digest of HMAC-SHA256, keyed with the UTF-8 bytes of the secret, over the
  UTF-8 bytes of the query-string encoding of the parameters: 64 characters, each a
  digit or a letter from a to f. A name made of unreserved characters, as every
  parameter name of this program is, stands for itself in the encoding.
\<close>

theorem sign_request_hmac_sha256_hex:
  "sign_request L self P
     = hexdigest (hmac_sha256 (encode_utf8 (api_secret self))
                   (encode_utf8 (spec_query_string L P)))
   \<and> length (sign_request L self P) = 64
   \<and> set (sign_request L self P) \<subseteq> set ''0123456789abcdef''
   \<and> (set k \<subseteq> set ALWAYS_SAFE \<longrightarrow> spec_percent_encode k = k)"
proof (intro conjI impI)
  show "sign_request L self P
     = hexdigest (hmac_sha256 (encode_utf8 (api_secret self))
                   (encode_utf8 (spec_query_string L P)))"
    by (simp add: sign_request_def Let_def urlencode_spec)
  show "length (sign_request L self P) = 64"
    by (simp add: sign_request_def Let_def length_hexdigest length_hmac_sha256)
  show "set (sign_request L self P) \<subseteq> set ''0123456789abcdef''"
    unfolding sign_request_def Let_def by (rule set_hexdigest)
  show "spec_percent_encode k = k" if "set k \<subseteq> set ALWAYS_SAFE"
    using that by (rule spec_percent_encode_safe)
qed

theorem sign_request_hmac_sha256_hex_witness:
  "spec_query_string demo_lib
       [(''symbol'', PStr ''BTCUSDT''), (''timestamp'', PInt 1700000000000)]
     = ''symbol=BTCUSDT&timestamp=1700000000000''
   \<and> sign_request demo_lib demo_client
       [(''symbol'', PStr ''BTCUSDT''), (''timestamp'', PInt 1700000000000)]
     = hexdigest (hmac_sha256 (encode_utf8 ''secret'')
                   (encode_utf8 ''symbol=BTCUSDT&timestamp=1700000000000''))
   \<and> length (sign_request demo_lib demo_client
       [(''symbol'', PStr ''BTCUSDT''), (''timestamp'', PInt 1700000000000)]) = 64"
proof -
  have s: "set ''symbol'' \<subseteq> set ALWAYS_SAFE" "set ''BTCUSDT'' \<subseteq> set ALWAYS_SAFE"
    "set ''timestamp'' \<subseteq> set ALWAYS_SAFE" "set ''1700000000000'' \<subseteq> set ALWAYS_SAFE"
    by (simp_all add: ALWAYS_SAFE_def)
  note T = sign_request_hmac_sha256_hex
             [of demo_lib demo_client
                 "[(''symbol'', PStr ''BTCUSDT''), (''timestamp'', PInt 1700000000000)]"]
  have q: "spec_query_string demo_lib
       [(''symbol'', PStr ''BTCUSDT''), (''timestamp'', PInt 1700000000000)]
     = ''symbol=BTCUSDT&timestamp=1700000000000''"
    using T [of "''symbol''", THEN conjunct2, THEN conjunct2, THEN conjunct2, rule_format, OF s(1)]
          T [of "''BTCUSDT''", THEN conjunct2, THEN conjunct2, THEN conjunct2, rule_format, OF s(2)]
          T [of "''timestamp''", THEN conjunct2, THEN conjunct2, THEN conjunct2, rule_format, OF s(3)]
          T [of "''1700000000000''", THEN conjunct2, THEN conjunct2, THEN conjunct2, rule_format, OF s(4)]
    by (simp add: int_str_sample)
  have a: "api_secret demo_client = ''secret''"
    by (simp add: demo_client_def init_client_def)
  from T [of "''symbol''", THEN conjunct1] T [of "''symbol''", THEN conjunct2, THEN conjunct1]
       q a
  show ?thesis by simp
qed

section \<open>The signature that is posted\<close>




section \<open>The signed string and the query on the wire\<close>

text \<open>
  C9, as stated: for every parameter set the encoding that is signed and the encoding
  that is sent are the same bytes. The parameters of a LIMIT order without price hold
  \<open>price = None\<close>: the signer encodes it as \<open>price=None\<close>, \<open>requests\<close> leaves the
  parameter out. And when the caller's dictionary holds a \<open>signature\<close> of its own, the
  string that is signed holds that entry, while the parameters sent, the signature apart,
  no longer do.
\<close>

theorem wire_encoding_differs_on_None:
  "urlencode demo_lib
     [(''symbol'', PStr ''ETHUSDT''), (''side'', PStr ''SELL''), (''type'', PStr ''LIMIT''),
      (''timeInForce'', PStr ''GTC''), (''quantity'', PFloat (Finite False 1 1)),
      (''price'', PNone), (''timestamp'', PInt 1700000000000)]
     = ''symbol=ETHUSDT&side=SELL&type=LIMIT&timeInForce=GTC&quantity=2.0&price=None&timestamp=1700000000000''
   \<and> encode_params demo_lib
     [(''symbol'', PStr ''ETHUSDT''), (''side'', PStr ''SELL''), (''type'', PStr ''LIMIT''),
      (''timeInForce'', PStr ''GTC''), (''quantity'', PFloat (Finite False 1 1)),
      (''price'', PNone), (''timestamp'', PInt 1700000000000)]
     = ''symbol=ETHUSDT&side=SELL&type=LIMIT&timeInForce=GTC&quantity=2.0&timestamp=1700000000000''
   \<and> urlencode demo_lib
     [(''symbol'', PStr ''ETHUSDT''), (''side'', PStr ''SELL''), (''type'', PStr ''LIMIT''),
      (''timeInForce'', PStr ''GTC''), (''quantity'', PFloat (Finite False 1 1)),
      (''price'', PNone), (''timestamp'', PInt 1700000000000)]
     \<noteq> encode_params demo_lib
     [(''symbol'', PStr ''ETHUSDT''), (''side'', PStr ''SELL''), (''type'', PStr ''LIMIT''),
      (''timeInForce'', PStr ''GTC''), (''quantity'', PFloat (Finite False 1 1)),
      (''price'', PNone), (''timestamp'', PInt 1700000000000)]
   \<and> urlencode demo_lib
       (dict_set ''timestamp'' (PInt 1700000000000) [(''signature'', PStr ''x'')])
     = ''signature=x&timestamp=1700000000000''
   \<and> urlencode demo_lib
       (filter (\<lambda>kv. fst kv \<noteq> ''signature'')
          (params (last (wire (snd (post_request demo_lib demo_client ''/fapi/v1/order'' 0
             (snd (new_dict [(''signature'', PStr ''x'')] demo_world))))))))
     = ''timestamp=1700000000000''"
proof -
  have a: "urlencode demo_lib
     [(''symbol'', PStr ''ETHUSDT''), (''side'', PStr ''SELL''), (''type'', PStr ''LIMIT''),
      (''timeInForce'', PStr ''GTC''), (''quantity'', PFloat (Finite False 1 1)),
      (''price'', PNone), (''timestamp'', PInt 1700000000000)]
     = ''symbol=ETHUSDT&side=SELL&type=LIMIT&timeInForce=GTC&quantity=2.0&price=None&timestamp=1700000000000''"
    by (simp add: urlencode_def quote_plus_safe ALWAYS_SAFE_def demo_lib_def
          demo_float_repr_def int_str_sample)
  have b: "encode_params demo_lib
     [(''symbol'', PStr ''ETHUSDT''), (''side'', PStr ''SELL''), (''type'', PStr ''LIMIT''),
      (''timeInForce'', PStr ''GTC''), (''quantity'', PFloat (Finite False 1 1)),
      (''price'', PNone), (''timestamp'', PInt 1700000000000)]
     = ''symbol=ETHUSDT&side=SELL&type=LIMIT&timeInForce=GTC&quantity=2.0&timestamp=1700000000000''"
    by (simp add: encode_params_def wire_value_eq quote_plus_bytes_utf8 quote_plus_safe
          ALWAYS_SAFE_def demo_lib_def demo_float_repr_def int_str_sample)
  have c: "urlencode demo_lib
       (dict_set ''timestamp'' (PInt 1700000000000) [(''signature'', PStr ''x'')])
     = ''signature=x&timestamp=1700000000000''"
    by (simp add: urlencode_def quote_plus_safe ALWAYS_SAFE_def int_str_sample)
  have d: "urlencode demo_lib
       (filter (\<lambda>kv. fst kv \<noteq> ''signature'')
          (params (last (wire (snd (post_request demo_lib demo_client ''/fapi/v1/order'' 0
             (snd (new_dict [(''signature'', PStr ''x'')] demo_world))))))))
     = ''timestamp=1700000000000''"
    by (simp add: post_request_snd sent_request_def signed_def stamped_def new_dict_def
          demo_world_def demo_clock_def urlencode_def quote_plus_safe ALWAYS_SAFE_def
          int_str_sample)
  show ?thesis unfolding a b using c d by simp
qed

text \<open>
  C9, amended. For every parameter set without a \<open>None\<close> value the encoding that is
  signed and the encoding that \<open>requests\<close> sends are the same bytes. For a call of
  \<open>_post_request\<close> whose parameters hold no \<open>None\<close>, the URL handed to \<open>requests\<close>
  is the base URL followed by the path, the query that \<open>requests\<close> appends to it is the
  encoding of the posted parameters, and the requoting of the whole URL leaves it
  unchanged, whatever the part in front of the \<open>?\<close> (scheme, host and path, made of
  unreserved characters, colons and slashes) is; when moreover the caller supplied no
  \<open>signature\<close>, the query sent is the signed string followed by \<open>&signature=\<close> and
  the signature, which is the HMAC over exactly that string.
\<close>

theorem wire_query_is_signed_string:
  "(PNone \<notin> snd ` set ps \<longrightarrow> encode_params L ps = urlencode L ps)
   \<and> (PNone \<notin> snd ` set (heap w r) \<longrightarrow>
       (let d1 = dict_set ''timestamp'' (PInt (clock w (ticks w))) (heap w r);
            sg = sign_request L self d1;
            req = last (wire (snd (post_request L self path r w)))
        in sg = hexdigest (hmac_sha256 (encode_utf8 (api_secret self))
                            (encode_utf8 (urlencode L d1)))
           \<and> url req = BASE_URL @ path
           \<and> encode_params L d1 = urlencode L d1
           \<and> encode_params L (params req) = urlencode L (params req)
           \<and> (\<forall>u. set u \<subseteq> set (ALWAYS_SAFE @ '':/'') \<longrightarrow>
                 requote_uri (u @ ''?'' @ encode_params L (params req))
                   = u @ ''?'' @ urlencode L (params req))
           \<and> (''signature'' \<notin> fst ` set (heap w r) \<longrightarrow>
                 params req = d1 @ [(''signature'', PStr sg)]
                 \<and> encode_params L (params req) = urlencode L d1 @ ''&signature='' @ sg
                 \<and> (\<forall>u. set u \<subseteq> set (ALWAYS_SAFE @ '':/'') \<longrightarrow>
                       requote_uri (u @ ''?'' @ encode_params L (params req))
                         = u @ ''?'' @ urlencode L d1 @ ''&signature='' @ sg))))"
proof (intro conjI impI)
  show "encode_params L ps = urlencode L ps" if "PNone \<notin> snd ` set ps"
    using that by (rule encode_params_urlencode)
next
  assume h: "PNone \<notin> snd ` set (heap w r)"
  define d1 where "d1 = dict_set ''timestamp'' (PInt (clock w (ticks w))) (heap w r)"
  define sg where "sg = sign_request L self d1"
  define d2 where "d2 = dict_set ''signature'' (PStr sg) d1"
  define req where "req = last (wire (snd (post_request L self path r w)))"
  have n1: "PNone \<notin> snd ` set d1"
    using h dict_set_values [of "''timestamp''" "PInt (clock w (ticks w))" "heap w r"]
    unfolding d1_def by auto
  have n2: "PNone \<notin> snd ` set d2"
    using n1 dict_set_values [of "''signature''" "PStr sg" d1]
    unfolding d2_def by auto
  have ne: "d1 \<noteq> []" by (simp add: d1_def dict_set_nonempty)
  have pr: "params req = d2"
    by (simp add: req_def post_request_snd sent_request_def signed_def stamped_def
          d1_def [symmetric] sg_def [symmetric] d2_def [symmetric])
  have s0: "sg = hexdigest (hmac_sha256 (encode_utf8 (api_secret self))
                            (encode_utf8 (urlencode L d1)))"
    by (simp add: sg_def sign_request_def Let_def)
  have ur: "url req = BASE_URL @ path"
    by (simp add: req_def post_request_snd sent_request_def)
  have e1: "encode_params L d1 = urlencode L d1"
    using n1 by (rule encode_params_urlencode)
  have e2: "encode_params L (params req) = urlencode L (params req)"
    unfolding pr using n2 by (rule encode_params_urlencode)
  have g4: "\<forall>u. set u \<subseteq> set (ALWAYS_SAFE @ '':/'') \<longrightarrow>
                 requote_uri (u @ ''?'' @ encode_params L (params req))
                   = u @ ''?'' @ urlencode L (params req)"
    unfolding e2 by (intro allI impI requote_uri_front)
  have g5: "params req = d1 @ [(''signature'', PStr sg)]
        \<and> encode_params L (params req) = urlencode L d1 @ ''&signature='' @ sg
        \<and> (\<forall>u. set u \<subseteq> set (ALWAYS_SAFE @ '':/'') \<longrightarrow>
               requote_uri (u @ ''?'' @ encode_params L (params req))
                 = u @ ''?'' @ urlencode L d1 @ ''&signature='' @ sg)"
    if k0: "''signature'' \<notin> fst ` set (heap w r)"
  proof -
    have k1: "''signature'' \<notin> fst ` set d1"
      using k0 by (simp add: d1_def dict_set_keys)
    then have d2e: "d2 = d1 @ [(''signature'', PStr sg)]"
      by (simp add: d2_def dict_set_fresh)
    have hexsafe: "set sg \<subseteq> set ALWAYS_SAFE"
    proof -
      have "set sg \<subseteq> set ''0123456789abcdef''"
        unfolding sg_def sign_request_def Let_def by (rule set_hexdigest)
      moreover have "set ''0123456789abcdef'' \<subseteq> set ALWAYS_SAFE"
        by (simp add: ALWAYS_SAFE_def)
      ultimately show ?thesis by (rule subset_trans)
    qed
    have sigsafe: "set ''signature'' \<subseteq> set ALWAYS_SAFE"
      by (simp add: ALWAYS_SAFE_def)
    have ue: "urlencode L d2 = urlencode L d1 @ ''&signature='' @ sg"
      using ne hexsafe sigsafe by (simp add: d2e urlencode_snoc quote_plus_safe)
    have a: "params req = d1 @ [(''signature'', PStr sg)]"
      using pr d2e by (simp only:)
    have b: "encode_params L (params req) = urlencode L d1 @ ''&signature='' @ sg"
      using e2 ue unfolding pr by (simp only:)
    have c: "\<forall>u. set u \<subseteq> set (ALWAYS_SAFE @ '':/'') \<longrightarrow>
               requote_uri (u @ ''?'' @ encode_params L (params req))
                 = u @ ''?'' @ urlencode L d1 @ ''&signature='' @ sg"
      using g4 ue unfolding pr by (simp only:)
    from a b c show ?thesis by (intro conjI)
  qed
  from s0 ur e1 e2 g4 g5
  show "let d1 = dict_set ''timestamp'' (PInt (clock w (ticks w))) (heap w r);
            sg = sign_request L self d1;
            req = last (wire (snd (post_request L self path r w)))
        in sg = hexdigest (hmac_sha256 (encode_utf8 (api_secret self))
                            (encode_utf8 (urlencode L d1)))
           \<and> url req = BASE_URL @ path
           \<and> encode_params L d1 = urlencode L d1
           \<and> encode_params L (params req) = urlencode L (params req)
           \<and> (\<forall>u. set u \<subseteq> set (ALWAYS_SAFE @ '':/'') \<longrightarrow>
                 requote_uri (u @ ''?'' @ encode_params L (params req))
                   = u @ ''?'' @ urlencode L (params req))
           \<and> (''signature'' \<notin> fst ` set (heap w r) \<longrightarrow>
                 params req = d1 @ [(''signature'', PStr sg)]
                 \<and> encode_params L (params req) = urlencode L d1 @ ''&signature='' @ sg
                 \<and> (\<forall>u. set u \<subseteq> set (ALWAYS_SAFE @ '':/'') \<longrightarrow>
                       requote_uri (u @ ''?'' @ encode_params L (params req))
                         = u @ ''?'' @ urlencode L d1 @ ''&signature='' @ sg))"
    unfolding Let_def d1_def sg_def req_def by blast
qed

theorem wire_query_is_signed_string_witness:
  "requote_uri (''https://testnet.binancefuture.com/fapi/v1/order'' @ ''?''
     @ encode_params demo_lib
         (params (last (wire (snd (post_request demo_lib demo_client ''/fapi/v1/order'' 0
            (snd (new_dict [(''symbol'', PStr ''BTCUSDT'')] demo_world))))))))
     = ''https://testnet.binancefuture.com/fapi/v1/order?symbol=BTCUSDT&timestamp=1700000000000&signature=''
       @ sign_request demo_lib demo_client
           [(''symbol'', PStr ''BTCUSDT''), (''timestamp'', PInt 1700000000000)]
   \<and> sign_request demo_lib demo_client
           [(''symbol'', PStr ''BTCUSDT''), (''timestamp'', PInt 1700000000000)]
     = hexdigest (hmac_sha256 (encode_utf8 ''secret'')
         (encode_utf8 ''symbol=BTCUSDT&timestamp=1700000000000''))"
proof -
  let ?w = "snd (new_dict [(''symbol'', PStr ''BTCUSDT'')] demo_world)"
  let ?u = "''https://testnet.binancefuture.com/fapi/v1/order''"
  have h: "heap ?w 0 = [(''symbol'', PStr ''BTCUSDT'')]"
    "clock ?w (ticks ?w) = 1700000000000"
    by (simp_all add: new_dict_def demo_world_def demo_clock_def)
  have p: "PNone \<notin> snd ` set (heap ?w 0)"
    by (simp add: h)
  have k: "''signature'' \<notin> fst ` set (heap ?w 0)"
    by (simp add: h)
  have f: "set ?u \<subseteq> set (ALWAYS_SAFE @ '':/'')"
    by (simp add: ALWAYS_SAFE_def)
  have u: "urlencode demo_lib [(''symbol'', PStr ''BTCUSDT''), (''timestamp'', PInt 1700000000000)]
             = ''symbol=BTCUSDT&timestamp=1700000000000''"
    by (simp add: urlencode_def quote_plus_safe ALWAYS_SAFE_def int_str_sample)
  have a: "api_secret demo_client = ''secret''"
    by (simp add: demo_client_def init_client_def)
  have dd: "dict_set ''timestamp'' (PInt (clock ?w (ticks ?w))) (heap ?w 0)
              = [(''symbol'', PStr ''BTCUSDT''), (''timestamp'', PInt 1700000000000)]"
    by (simp add: h)
  note T = wire_query_is_signed_string
             [where L = demo_lib and w = ?w and r = 0 and path = "''/fapi/v1/order''"
                and self = demo_client,
              THEN conjunct2, rule_format, OF p, unfolded Let_def]
  from T have c1: "sign_request demo_lib demo_client
        (dict_set ''timestamp'' (PInt (clock ?w (ticks ?w))) (heap ?w 0))
      = hexdigest (hmac_sha256 (encode_utf8 (api_secret demo_client))
          (encode_utf8 (urlencode demo_lib
             (dict_set ''timestamp'' (PInt (clock ?w (ticks ?w))) (heap ?w 0)))))"
    by (rule conjunct1)
  from T k f have c5: "requote_uri (?u @ ''?''
        @ encode_params demo_lib
            (params (last (wire (snd (post_request demo_lib demo_client ''/fapi/v1/order'' 0 ?w))))))
      = ?u @ ''?''
        @ urlencode demo_lib (dict_set ''timestamp'' (PInt (clock ?w (ticks ?w))) (heap ?w 0))
        @ ''&signature=''
        @ sign_request demo_lib demo_client
            (dict_set ''timestamp'' (PInt (clock ?w (ticks ?w))) (heap ?w 0))"
    by blast
  have A: "requote_uri (?u @ ''?''
     @ encode_params demo_lib
         (params (last (wire (snd (post_request demo_lib demo_client ''/fapi/v1/order'' 0 ?w))))))
     = ''https://testnet.binancefuture.com/fapi/v1/order?symbol=BTCUSDT&timestamp=1700000000000&signature=''
       @ sign_request demo_lib demo_client
           [(''symbol'', PStr ''BTCUSDT''), (''timestamp'', PInt 1700000000000)]"
    unfolding c5 dd u by simp
  have B: "sign_request demo_lib demo_client
           [(''symbol'', PStr ''BTCUSDT''), (''timestamp'', PInt 1700000000000)]
     = hexdigest (hmac_sha256 (encode_utf8 ''secret'')
         (encode_utf8 ''symbol=BTCUSDT&timestamp=1700000000000''))"
    using c1 unfolding dd u a .
  from A B show ?thesis by (rule conjI)
qed

end
